theory Spec2Isabelle
  imports Complex_Main "HOL-Library.Word"
begin

unbundle bit_operations_syntax

section \<open>Data model (CBLuts.h)\<close>

text \<open>
  \<^verbatim>\<open>struct Vec3f { float x; float y; float z; }\<close> and
  \<^verbatim>\<open>struct Mat3f { Vec3f x; Vec3f y; Vec3f z; }\<close>.
  A \<^verbatim>\<open>float\<close> is idealised to a real number: every finite float is a real, and
  \<open>+\<close>, \<open>-\<close>, \<open>*\<close>, \<open>/\<close> are the exact operations (no rounding, no overflow).
  The one place where the program can leave the finite values, \<^verbatim>\<open>powf\<close> of a
  negative base, is modelled with \<open>option\<close> below. The fields are called
  \<open>vx vy vz\<close> and \<open>mx my mz\<close> because \<open>x\<close>, \<open>y\<close>, \<open>z\<close> are wanted as variables.
\<close>

record Vec3f =
  vx :: real
  vy :: real
  vz :: real

record Mat3f =
  mx :: Vec3f
  my :: Vec3f
  mz :: Vec3f

text \<open>\<^verbatim>\<open>enum tLMS { kL, kM, kS }\<close>: the enumerators are the indices 0, 1, 2.\<close>

datatype tLMS = kL | kM | kS

text \<open>
  \<^verbatim>\<open>struct RGBA32 { union { uint8_t c[4]; uint32_t u32; }; }\<close>: the four bytes
  \<^verbatim>\<open>c[0]\<close> .. \<^verbatim>\<open>c[3]\<close>; two values are the same 32-bit word exactly when the
  four bytes agree.
\<close>

record RGBA32 =
  c0 :: "8 word"
  c1 :: "8 word"
  c2 :: "8 word"
  c3 :: "8 word"

definition kLUTBits :: nat where
  "kLUTBits = 5"

definition kLUTSize :: nat where
  "kLUTSize = push_bit kLUTBits 1"

text \<open>
  \<^verbatim>\<open>RGBA32 rgbLUT[kLUTSize][kLUTSize][kLUTSize]\<close>: an array of fixed extent is a
  function of its three indices; only indices below \<open>kLUTSize\<close> are ever read or
  written by the code.
\<close>

type_synonym LUT = "nat \<Rightarrow> nat \<Rightarrow> nat \<Rightarrow> RGBA32"

definition lut_store :: "LUT \<Rightarrow> nat \<Rightarrow> nat \<Rightarrow> nat \<Rightarrow> RGBA32 \<Rightarrow> LUT" where
  \<comment> \<open>\<^verbatim>\<open>rgbLUT[i][j][k] = p\<close>\<close>
  "lut_store rgbLUT i j k p = rgbLUT(i := (rgbLUT i)(j := (rgbLUT i j)(k := p)))"

section \<open>Iteration\<close>

text \<open>
  \<^verbatim>\<open>for (int i = 0; i < n; i++) body\<close> over a state, where the body can fail
  (an assertion that fires, a conversion whose result is undefined): the loop stops at
  the first failure.
\<close>

primrec for_each :: "nat list \<Rightarrow> (nat \<Rightarrow> 's \<Rightarrow> 's option) \<Rightarrow> 's \<Rightarrow> 's option" where
  "for_each [] body s = Some s"
| "for_each (i # is) body s = (case body i s of None \<Rightarrow> None | Some s' \<Rightarrow> for_each is body s')"

section \<open>RGB LUT support (CBLuts.cpp)\<close>

subsection \<open>CreateIdentityLUT\<close>

definition scale :: nat where
  "scale = 256 div kLUTSize"

definition offset :: nat where
  "offset = scale div 2"

definition identity_pixel :: "nat \<Rightarrow> nat \<Rightarrow> nat \<Rightarrow> RGBA32" where
  \<comment> \<open>the pixel written to \<^verbatim>\<open>rgbLUT[i][j][k]\<close>; the stores to \<^verbatim>\<open>uint8_t\<close> wrap\<close>
  "identity_pixel i j k =
     \<lparr> c0 = of_nat (k * scale + offset),
       c1 = of_nat (j * scale + offset),
       c2 = of_nat (i * scale + offset),
       c3 = 255 \<rparr>"

definition CreateIdentityLUT :: "LUT \<Rightarrow> LUT" where
  "CreateIdentityLUT rgbLUT =
     fold (\<lambda>i. fold (\<lambda>j. fold (\<lambda>k lut. lut_store lut i j k (identity_pixel i j k))
       [0..<kLUTSize]) [0..<kLUTSize]) [0..<kLUTSize] rgbLUT"

subsection \<open>ApplyLUT\<close>

text \<open>\<^verbatim>\<open>#define EXTRAPOLATE_LUT 1\<close>; the \<^verbatim>\<open>#ifdef\<close> blocks become conditionals on a flag.\<close>

definition EXTRAPOLATE_LUT :: bool where
  "EXTRAPOLATE_LUT = True"

definition lutShift :: nat where
  "lutShift = kLUTBits"

definition lutSize :: int where
  "lutSize = push_bit lutShift 1"

definition fShift :: nat where
  "fShift = 8 - lutShift"

definition fHalf :: int where
  "fHalf = push_bit (fShift - 1) 1"

definition fMask :: int where
  "fMask = push_bit fShift 1 - 1"

text \<open>
  One channel \<open>j\<close> of the loop body up to the index assertions: from the input byte
  \<^verbatim>\<open>ci[j]\<close> to \<^verbatim>\<open>(i0[j], i1[j], s[j])\<close> after the boundary policy. The byte is
  promoted to \<^verbatim>\<open>int\<close>; \<^verbatim>\<open>>>\<close> and \<^verbatim>\<open>&\<close> act on a non-negative \<^verbatim>\<open>int\<close>.
\<close>

definition lut_coords :: "bool \<Rightarrow> 8 word \<Rightarrow> int \<times> int \<times> int" where
  "lut_coords extrapolate ci =
     (let co = uint ci + fHalf;
          i1 = drop_bit fShift co;
          i0 = i1 - 1;
          s  = co AND fMask
      in if i0 < 0 then
           (if extrapolate then (i0 + 1, i1 + 1, s - 8) else (i0 + 1, i1, s))
         else if i1 \<ge> lutSize then
           (if extrapolate then (i0 - 1, i1 - 1, s + 8) else (i0, i1 - 1, s))
         else (i0, i1, s))"

definition index_asserts :: "int \<times> int \<times> int \<Rightarrow> bool" where
  \<comment> \<open>\<^verbatim>\<open>assert(0 <= i0[j] && i0[j] < kLUTSize); assert(0 <= i1[j] && i1[j] < kLUTSize);\<close>\<close>
  "index_asserts t =
     (case t of (i0, i1, s) \<Rightarrow>
        (0 \<le> i0 \<and> i0 < int kLUTSize) \<and> (0 \<le> i1 \<and> i1 < int kLUTSize))"

definition lerp :: "int \<Rightarrow> 8 word \<Rightarrow> 8 word \<Rightarrow> int" where
  \<comment> \<open>\<^verbatim>\<open>(((8 - s) * lutC0.c + s * lutC1.c)) >> 3\<close>, an arithmetic shift of an \<^verbatim>\<open>int\<close>\<close>
  "lerp s a b = drop_bit 3 ((8 - s) * uint a + s * uint b)"

definition clamp_ch :: "bool \<Rightarrow> int \<Rightarrow> int" where
  \<comment> \<open>\<^verbatim>\<open>ch = ch < 0 ? 0 : ch > 255 ? 255 : ch\<close>, compiled in under \<^verbatim>\<open>EXTRAPOLATE_LUT\<close>\<close>
  "clamp_ch extrapolate ch =
     (if extrapolate then (if ch < 0 then 0 else if ch > 255 then 255 else ch) else ch)"

definition channel_assert :: "int \<Rightarrow> bool" where
  \<comment> \<open>\<^verbatim>\<open>assert(0 <= ch && ch <= 255)\<close>\<close>
  "channel_assert ch = (0 \<le> ch \<and> ch \<le> 255)"

text \<open>
  The body of the pixel loop. \<open>None\<close> is an assertion that fires. The two cube entries
  read are \<^verbatim>\<open>rgbLUT[i0[2]][i0[1]][i0[0]]\<close> and \<^verbatim>\<open>rgbLUT[i1[2]][i1[1]][i1[0]]\<close>.
\<close>

definition lutC0 :: "bool \<Rightarrow> LUT \<Rightarrow> RGBA32 \<Rightarrow> RGBA32" where
  "lutC0 extrapolate rgbLUT p =
     rgbLUT (nat (fst (lut_coords extrapolate (c2 p))))
            (nat (fst (lut_coords extrapolate (c1 p))))
            (nat (fst (lut_coords extrapolate (c0 p))))"

definition lutC1 :: "bool \<Rightarrow> LUT \<Rightarrow> RGBA32 \<Rightarrow> RGBA32" where
  "lutC1 extrapolate rgbLUT p =
     rgbLUT (nat (fst (snd (lut_coords extrapolate (c2 p)))))
            (nat (fst (snd (lut_coords extrapolate (c1 p)))))
            (nat (fst (snd (lut_coords extrapolate (c0 p)))))"

definition lut_weight :: "bool \<Rightarrow> 8 word \<Rightarrow> int" where
  "lut_weight extrapolate ci = snd (snd (lut_coords extrapolate ci))"

definition ApplyLUT_pixel :: "bool \<Rightarrow> LUT \<Rightarrow> RGBA32 \<Rightarrow> RGBA32 option" where
  "ApplyLUT_pixel extrapolate rgbLUT p =
     (if \<not> (index_asserts (lut_coords extrapolate (c0 p)) \<and>
             index_asserts (lut_coords extrapolate (c1 p)) \<and>
             index_asserts (lut_coords extrapolate (c2 p))) then None
      else
        let l0 = lutC0 extrapolate rgbLUT p;
            l1 = lutC1 extrapolate rgbLUT p;
            ch0 = clamp_ch extrapolate (lerp (lut_weight extrapolate (c0 p)) (c0 l0) (c0 l1));
            ch1 = clamp_ch extrapolate (lerp (lut_weight extrapolate (c1 p)) (c1 l0) (c1 l1));
            ch2 = clamp_ch extrapolate (lerp (lut_weight extrapolate (c2 p)) (c2 l0) (c2 l1))
        in if \<not> (channel_assert ch0 \<and> channel_assert ch1 \<and> channel_assert ch2) then None
           else Some \<lparr> c0 = of_int ch0, c1 = of_int ch1, c2 = of_int ch2, c3 = 255 \<rparr>)"

text \<open>
  The loop over the \<open>n\<close> pixels: \<^verbatim>\<open>dataOut[i]\<close> is written from \<^verbatim>\<open>dataIn[i]\<close>.
  An index outside either buffer is a failure as well.
\<close>

definition pixel_loop ::
  "(RGBA32 \<Rightarrow> RGBA32 option) \<Rightarrow> int \<Rightarrow> RGBA32 list \<Rightarrow> RGBA32 list \<Rightarrow> RGBA32 list option" where
  "pixel_loop f n dataIn dataOut =
     for_each [0..<nat n]
       (\<lambda>i out. if i < length dataIn \<and> i < length out
                 then map_option (\<lambda>q. out[i := q]) (f (dataIn ! i)) else None)
       dataOut"

definition ApplyLUT :: "LUT \<Rightarrow> int \<Rightarrow> RGBA32 list \<Rightarrow> RGBA32 list \<Rightarrow> RGBA32 list option" where
  "ApplyLUT rgbLUT n dataIn dataOut =
     pixel_loop (ApplyLUT_pixel EXTRAPOLATE_LUT rgbLUT) n dataIn dataOut"

subsection \<open>ApplyLUTNoLerp\<close>

definition ApplyLUTNoLerp_pixel :: "LUT \<Rightarrow> RGBA32 \<Rightarrow> RGBA32" where
  \<comment> \<open>\<^verbatim>\<open>rgbLUT[ci[2] >> fShift][ci[1] >> fShift][ci[0] >> fShift]\<close>\<close>
  "ApplyLUTNoLerp_pixel rgbLUT p =
     rgbLUT (nat (drop_bit fShift (uint (c2 p))))
            (nat (drop_bit fShift (uint (c1 p))))
            (nat (drop_bit fShift (uint (c0 p))))"

definition ApplyLUTNoLerp :: "LUT \<Rightarrow> int \<Rightarrow> RGBA32 list \<Rightarrow> RGBA32 list \<Rightarrow> RGBA32 list option" where
  "ApplyLUTNoLerp rgbLUT n dataIn dataOut =
     pixel_loop (\<lambda>p. Some (ApplyLUTNoLerp_pixel rgbLUT p)) n dataIn dataOut"

section \<open>Vector and matrix helpers (CBLuts.cpp, anonymous namespace)\<close>

definition vec3 :: "real \<Rightarrow> real \<Rightarrow> real \<Rightarrow> Vec3f" where
  "vec3 a b c = \<lparr> vx = a, vy = b, vz = c \<rparr>"

definition mat3 ::
  "real \<Rightarrow> real \<Rightarrow> real \<Rightarrow> real \<Rightarrow> real \<Rightarrow> real \<Rightarrow> real \<Rightarrow> real \<Rightarrow> real \<Rightarrow> Mat3f" where
  \<comment> \<open>the brace initialiser of a \<^verbatim>\<open>Mat3f\<close>, row by row\<close>
  "mat3 a b c d e f g h i = \<lparr> mx = vec3 a b c, my = vec3 d e f, mz = vec3 g h i \<rparr>"

fun elt :: "Vec3f \<Rightarrow> tLMS \<Rightarrow> real" where
  \<comment> \<open>\<^verbatim>\<open>(&v.x)[i]\<close>\<close>
  "elt v kL = vx v"
| "elt v kM = vy v"
| "elt v kS = vz v"

fun set_elt :: "Vec3f \<Rightarrow> tLMS \<Rightarrow> real \<Rightarrow> Vec3f" where
  \<comment> \<open>an assignment through the reference \<^verbatim>\<open>float& elt(Vec3f& v, int i)\<close>\<close>
  "set_elt v kL a = v\<lparr> vx := a \<rparr>"
| "set_elt v kM a = v\<lparr> vy := a \<rparr>"
| "set_elt v kS a = v\<lparr> vz := a \<rparr>"

fun row :: "Mat3f \<Rightarrow> tLMS \<Rightarrow> Vec3f" where
  \<comment> \<open>\<^verbatim>\<open>(&m.x)[i]\<close>\<close>
  "row m kL = mx m"
| "row m kM = my m"
| "row m kS = mz m"

definition col :: "Mat3f \<Rightarrow> tLMS \<Rightarrow> Vec3f" where
  \<comment> \<open>\<^verbatim>\<open>{ (&m.x.x)[i], (&m.y.x)[i], (&m.z.x)[i] }\<close>\<close>
  "col m i = vec3 (elt (mx m) i) (elt (my m) i) (elt (mz m) i)"

definition op_add :: "Vec3f \<Rightarrow> Vec3f \<Rightarrow> Vec3f" where
  \<comment> \<open>\<^verbatim>\<open>operator+(Vec3f a, Vec3f b)\<close>\<close>
  "op_add a b = vec3 (vx a + vx b) (vy a + vy b) (vz a + vz b)"

definition op_sub :: "Vec3f \<Rightarrow> Vec3f \<Rightarrow> Vec3f" where
  \<comment> \<open>\<^verbatim>\<open>operator-(Vec3f a, Vec3f b)\<close>\<close>
  "op_sub a b = vec3 (vx a - vx b) (vy a - vy b) (vz a - vz b)"

definition op_scale :: "real \<Rightarrow> Vec3f \<Rightarrow> Vec3f" where
  \<comment> \<open>\<^verbatim>\<open>operator*(float s, Vec3f a)\<close>\<close>
  "op_scale s a = vec3 (s * vx a) (s * vy a) (s * vz a)"

definition dot :: "Vec3f \<Rightarrow> Vec3f \<Rightarrow> real" where
  "dot a b = vx a * vx b + vy a * vy b + vz a * vz b"

definition op_mul :: "Mat3f \<Rightarrow> Vec3f \<Rightarrow> Vec3f" where
  \<comment> \<open>\<^verbatim>\<open>operator*(const Mat3f& m, const Vec3f& v)\<close>\<close>
  "op_mul m v = vec3 (dot (mx m) v) (dot (my m) v) (dot (mz m) v)"

text \<open>
  \<^verbatim>\<open>powf(b, e)\<close>. The program calls it with the exponents \<open>kGamma\<close> and
  \<open>1 / kGamma\<close> only, which are not integers: there the C library returns NaN for a
  negative base, and \<open>None\<close> stands for NaN. (HOL's \<open>powr\<close> of a negative base is
  \<open>\<bar>b\<bar> powr e\<close>, which is not what the program computes.)
\<close>

definition powf :: "real \<Rightarrow> real \<Rightarrow> real option" where
  "powf b e = (if b < 0 then None else Some (b powr e))"

definition pow :: "Vec3f \<Rightarrow> real \<Rightarrow> Vec3f option" where
  \<comment> \<open>\<^verbatim>\<open>{ powf(v.x, p), powf(v.y, p), powf(v.z, p) }\<close>; \<open>None\<close> when a component is NaN\<close>
  "pow v p =
     (case powf (vx v) p of None \<Rightarrow> None | Some a \<Rightarrow>
       (case powf (vy v) p of None \<Rightarrow> None | Some b \<Rightarrow>
         (case powf (vz v) p of None \<Rightarrow> None | Some c \<Rightarrow> Some (vec3 a b c))))"

section \<open>Colour-blind support (CBLuts.cpp)\<close>

text \<open>
  The calibration matrices. A literal such as \<^verbatim>\<open>0.31399022f\<close> is taken at its
  decimal value.
\<close>

definition kLMSFromRGB :: Mat3f where
  "kLMSFromRGB = mat3
     0.31399022 0.63951294 0.04649755
     0.15537241 0.75789446 0.08670142
     0.01775239 0.10944209 0.87256922"

definition kRGBFromLMS :: Mat3f where
  "kRGBFromLMS = mat3
     5.47221206 (- 4.64196010) 0.16963708
     (- 1.1252419) 2.29317094 (- 0.16789520)
     0.02980165 (- 0.19318073) 1.16364789"

definition kLMSProtanope :: Mat3f where
  "kLMSProtanope = mat3
     0 1.05118294 (- 0.05116099)
     0 1 0
     0 0 1"

definition kLMSDeuteranope :: Mat3f where
  "kLMSDeuteranope = mat3
     1 0 0
     0.9513092 0 0.04866992
     0 0 1"

definition kLMSTritanope :: Mat3f where
  "kLMSTritanope = mat3
     1 0 0
     0 1 0
     (- 0.86744736) 1.86727089 0"

definition kLMSFromRGBV :: Mat3f where
  "kLMSFromRGBV = mat3
     17.8824 43.5161 4.11935
     3.45565 27.1554 3.86714
     0.0299566 0.184309 1.46709"

definition kRGBFromLMSV :: Mat3f where
  "kRGBFromLMSV = mat3
     0.080944447900 (- 0.13050440900) 0.116721066
     (- 0.010248533500) 0.05401932660 (- 0.113614708)
     (- 0.000365296938) (- 0.00412161469) 0.693511405"

definition kLMSProtanopeV :: Mat3f where
  "kLMSProtanopeV = mat3
     0 2.02344 (- 2.52581)
     0 1 0
     0 0 1"

definition kLMSDeuteranopeV :: Mat3f where
  "kLMSDeuteranopeV = mat3
     1 0 0
     0.494207 0 1.24827
     0 0 1"

definition kLMSTritanopeV :: Mat3f where
  "kLMSTritanopeV = mat3
     1 0 0
     0 1 0
     (- 0.395913) 0.801109 0"

definition kDaltonErrorToDeltaP :: Mat3f where
  "kDaltonErrorToDeltaP = mat3
     0 0 0
     0.7 1 0
     0.7 0 1"

definition kDaltonErrorToDeltaD :: Mat3f where
  "kDaltonErrorToDeltaD = mat3
     1 0.7 0
     0 0 0
     0 0.7 1"

definition kDaltonErrorToDeltaT :: Mat3f where
  "kDaltonErrorToDeltaT = mat3
     1 0 0.7
     0 1 0.7
     0 0 0"

definition SimulateV :: "Vec3f \<Rightarrow> Mat3f \<Rightarrow> Vec3f" where
  "SimulateV rgb lmsTransform =
     (let lms = op_mul lmsTransform (op_mul kLMSFromRGBV rgb)
      in op_mul kRGBFromLMSV lms)"

fun Daltonise :: "Vec3f \<Rightarrow> tLMS \<Rightarrow> real \<Rightarrow> Vec3f" where
  "Daltonise rgb kL strength =
     (let rgbSim = SimulateV rgb kLMSProtanopeV;
          rgbDelta = op_mul kDaltonErrorToDeltaP (op_scale strength (op_sub rgb rgbSim))
      in op_add rgb rgbDelta)"
| "Daltonise rgb kM strength =
     (let rgbSim = SimulateV rgb kLMSDeuteranopeV;
          rgbDelta = op_mul kDaltonErrorToDeltaD (op_scale strength (op_sub rgb rgbSim))
      in op_add rgb rgbDelta)"
| "Daltonise rgb kS strength =
     (let rgbSim = SimulateV rgb kLMSTritanopeV;
          rgbDelta = op_mul kDaltonErrorToDeltaT (op_scale strength (op_sub rgb rgbSim))
      in op_add rgb rgbDelta)"

definition kLMSSimulate :: Mat3f where
  "kLMSSimulate = mat3
     0 1.05118294 (- 0.05116099)
     0.9513092 0 0.04866992
     (- 0.86744736) 1.86727089 0"

definition kNCDeltaRecip :: Mat3f where
  "kNCDeltaRecip = mat3
     0 1.05118299 (- 1.15280771)
     0.951309144 0 0.535540938
     (- 19.5461426) 20.5465717 0"

definition Simulate :: "Vec3f \<Rightarrow> tLMS \<Rightarrow> real \<Rightarrow> Vec3f" where
  "Simulate rgb lmsType strength =
     (let lms = op_mul kLMSFromRGB rgb;
          eltx = elt lms lmsType;
          simElt = dot (row kLMSSimulate lmsType) lms;
          lms = set_elt lms lmsType (eltx + strength * (simElt - eltx))
      in op_mul kRGBFromLMS lms)"

definition Correct :: "Vec3f \<Rightarrow> tLMS \<Rightarrow> real \<Rightarrow> Vec3f" where
  "Correct rgb lmsType strength =
     (let lms = op_mul kLMSFromRGB rgb;
          orgElt = elt lms lmsType;
          simElt = dot (row kLMSSimulate lmsType) lms;
          error = strength * (orgElt - simElt);
          mc = strength * strength;
          ms = 1 - strength;
          amount3Recip = vec3 (- 0.25) (- 0.3) (- 0.07);
          amount = elt amount3Recip lmsType;
          correct = op_scale (mc * amount) (col kNCDeltaRecip lmsType);
          correct = set_elt correct lmsType (ms * 2);
          lmsCorrect = op_add lms (op_scale error correct)
      in op_mul kRGBFromLMS lmsCorrect)"

section \<open>Packing and unpacking (CBLuts.cpp)\<close>

definition kGamma :: real where
  "kGamma = 2.2"

text \<open>
  The conversion \<^verbatim>\<open>uint8_t(f)\<close> of a float truncates towards zero; in both
  functions its argument is positive and below 256.
\<close>

definition ToU8 :: "real \<Rightarrow> 8 word" where
  "ToU8 f = (if f \<le> 0 then 0 else if f \<ge> 1 then 255 else of_int \<lfloor>f * 255 + 0.5\<rfloor>)"

definition ToU8u :: "real \<Rightarrow> 8 word" where
  "ToU8u f = (if f \<le> 0 then 0 else if f \<ge> 1 then 255 else of_int \<lfloor>f * 256\<rfloor>)"

text \<open>
  \<open>ToRGBA32\<close> and \<open>ToRGBA32u\<close> raise to \<open>1 / kGamma\<close> first. A NaN there fails both
  comparisons of \<open>ToU8\<close> and reaches the conversion to \<^verbatim>\<open>uint8_t\<close>, whose result
  the language leaves undefined: the result is \<open>None\<close>.
\<close>

definition ToRGBA32 :: "Vec3f \<Rightarrow> RGBA32 option" where
  "ToRGBA32 c =
     (case pow c (1 / kGamma) of None \<Rightarrow> None
      | Some g \<Rightarrow> Some \<lparr> c0 = ToU8 (vx g), c1 = ToU8 (vy g), c2 = ToU8 (vz g), c3 = 255 \<rparr>)"

definition ToRGBA32u :: "Vec3f \<Rightarrow> RGBA32 option" where
  "ToRGBA32u c =
     (case pow c (1 / kGamma) of None \<Rightarrow> None
      | Some g \<Rightarrow> Some \<lparr> c0 = ToU8u (vx g), c1 = ToU8u (vy g), c2 = ToU8u (vz g), c3 = 255 \<rparr>)"

definition FromRGBA32 :: "RGBA32 \<Rightarrow> Vec3f option" where
  "FromRGBA32 rgb =
     pow (vec3 (real_of_int (uint (c0 rgb)) / 255) (real_of_int (uint (c1 rgb)) / 255)
               (real_of_int (uint (c2 rgb)) / 255)) kGamma"

definition FromRGBA32u :: "RGBA32 \<Rightarrow> Vec3f option" where
  "FromRGBA32u rgb =
     pow (vec3 (real_of_int (uint (c0 rgb)) / 256) (real_of_int (uint (c1 rgb)) / 256)
               (real_of_int (uint (c2 rgb)) / 256)) kGamma"

section \<open>LUT construction and direct transform (CBLutGen.cpp)\<close>

definition CreateLUT_cell :: "(Vec3f \<Rightarrow> Vec3f) \<Rightarrow> nat \<Rightarrow> nat \<Rightarrow> nat \<Rightarrow> RGBA32 option" where
  \<comment> \<open>the value stored to \<^verbatim>\<open>rgbLUT[i][j][k]\<close>: \<^verbatim>\<open>ToRGBA32u(xform(FromRGBA32u(identity)))\<close>\<close>
  "CreateLUT_cell xform i j k =
     (case FromRGBA32u (identity_pixel i j k) of None \<Rightarrow> None
      | Some c \<Rightarrow> ToRGBA32u (xform c))"

definition CreateLUT :: "(Vec3f \<Rightarrow> Vec3f) \<Rightarrow> LUT \<Rightarrow> LUT option" where
  "CreateLUT xform rgbLUT =
     for_each [0..<kLUTSize] (\<lambda>i.
       for_each [0..<kLUTSize] (\<lambda>j.
         for_each [0..<kLUTSize] (\<lambda>k lut.
           map_option (lut_store lut i j k) (CreateLUT_cell xform i j k))))
       rgbLUT"

definition Transform_pixel :: "(Vec3f \<Rightarrow> Vec3f) \<Rightarrow> RGBA32 \<Rightarrow> RGBA32 option" where
  \<comment> \<open>\<^verbatim>\<open>ToRGBA32(xform(FromRGBA32(dataIn[i])))\<close>\<close>
  "Transform_pixel xform p =
     (case FromRGBA32 p of None \<Rightarrow> None | Some c \<Rightarrow> ToRGBA32 (xform c))"

definition Transform ::
  "(Vec3f \<Rightarrow> Vec3f) \<Rightarrow> int \<Rightarrow> RGBA32 list \<Rightarrow> RGBA32 list \<Rightarrow> RGBA32 list option" where
  "Transform xform n dataIn dataOut = pixel_loop (Transform_pixel xform) n dataIn dataOut"

section \<open>Spec-level notions and example data\<close>

text \<open>
  The spec's \<open>Apply(BuildLUT(f), pixel)\<close>: build the cube with \<open>CreateLUT\<close>, then
  sample it with the pixel body of \<open>ApplyLUT\<close>; and the entry that \<open>CreateLUT\<close> leaves
  at \<^verbatim>\<open>rgbLUT[i][j][k]\<close>.
\<close>

definition sample_built_LUT :: "(Vec3f \<Rightarrow> Vec3f) \<Rightarrow> LUT \<Rightarrow> RGBA32 \<Rightarrow> RGBA32 option" where
  "sample_built_LUT xform rgbLUT p =
     (case CreateLUT xform rgbLUT of None \<Rightarrow> None
      | Some lut \<Rightarrow> ApplyLUT_pixel EXTRAPOLATE_LUT lut p)"

definition stored_entry :: "(Vec3f \<Rightarrow> Vec3f) \<Rightarrow> LUT \<Rightarrow> nat \<Rightarrow> nat \<Rightarrow> nat \<Rightarrow> RGBA32 option" where
  "stored_entry xform rgbLUT i j k =
     (case CreateLUT xform rgbLUT of None \<Rightarrow> None | Some lut \<Rightarrow> Some (lut i j k))"

text \<open>Concrete pixels, cubes and transforms used as inputs below.\<close>

definition px :: "nat \<Rightarrow> nat \<Rightarrow> nat \<Rightarrow> nat \<Rightarrow> RGBA32" where
  "px r g b a = \<lparr> c0 = of_nat r, c1 = of_nat g, c2 = of_nat b, c3 = of_nat a \<rparr>"

definition blank_LUT :: LUT where
  "blank_LUT = (\<lambda>i j k. px 0 0 0 0)"

definition dark_edge_LUT :: LUT where
  \<comment> \<open>black in the first red cell, level 8 everywhere else\<close>
  "dark_edge_LUT = (\<lambda>i j k. if k = 0 then px 0 0 0 255 else px 8 8 8 255)"

definition step_xform :: "Vec3f \<Rightarrow> Vec3f" where
  \<comment> \<open>white where red exceeds green, black elsewhere\<close>
  "step_xform c = (if vy c < vx c then vec3 1 1 1 else vec3 0 0 0)"

text \<open>
  The transform that \<^verbatim>\<open>CreateImage\<close> passes for \<^verbatim>\<open>kSimulate\<close> (CBLutGen.cpp):
  \<^verbatim>\<open>[lmsType, strength](Vec3f c){ return Simulate(c, lmsType, strength); }\<close>.
\<close>

definition kSimulate_xform :: "tLMS \<Rightarrow> real \<Rightarrow> Vec3f \<Rightarrow> Vec3f" where
  "kSimulate_xform lmsType strength c = Simulate c lmsType strength"

text \<open>The classical projection of a deficiency type, one published matrix each.\<close>

fun classical_projection :: "tLMS \<Rightarrow> Mat3f" where
  "classical_projection kL = kLMSProtanope"
| "classical_projection kM = kLMSDeuteranope"
| "classical_projection kS = kLMSTritanope"

section \<open>The sampler's grid coordinates\<close>

lemma consts_simps:
  "kLUTSize = 32" "lutSize = 32" "fShift = 3" "fHalf = 4" "fMask = 7" "scale = 8" "offset = 4"
  by (simp_all add: kLUTSize_def kLUTBits_def lutSize_def lutShift_def fShift_def fHalf_def
      fMask_def scale_def offset_def)

lemma int_and_7: "(x::int) AND 7 = x mod 8"
  using take_bit_eq_mask [of 3 x] by (simp add: take_bit_eq_mod mask_eq_exp_minus_1)

lemma uint8_range: "0 \<le> uint (c::8 word) \<and> uint c < 256"
  using uint_lt2p [of c] by simp

lemma lut_coords_extrapolate:
  "lut_coords True c =
     (if uint c < 4 then (0, 1, uint c - 4)
      else if 252 \<le> uint c then (30, 31, uint c - 244)
      else ((uint c + 4) div 8 - 1, (uint c + 4) div 8, (uint c + 4) mod 8))"
  using uint8_range [of c]
  by (simp add: lut_coords_def consts_simps Let_def drop_bit_eq_div int_and_7) presburger

lemma lut_coords_clamp:
  "lut_coords False c =
     (if uint c < 4 then (0, 0, uint c + 4)
      else if 252 \<le> uint c then (31, 31, uint c - 252)
      else ((uint c + 4) div 8 - 1, (uint c + 4) div 8, (uint c + 4) mod 8))"
  using uint8_range [of c]
  by (simp add: lut_coords_def consts_simps Let_def drop_bit_eq_div int_and_7) presburger

lemma index_asserts_hold: "index_asserts (lut_coords e c)"
  using uint8_range [of c]
  by (cases e) (auto simp: lut_coords_extrapolate lut_coords_clamp index_asserts_def consts_simps)

section \<open>The identity cube\<close>

lemma uint_of_nat_small: "n < 256 \<Longrightarrow> uint (of_nat n :: 8 word) = int n"
  by (simp add: unsigned_of_nat take_bit_nat_eq_self)

lemma grid_byte:
  assumes "0 \<le> i" "i < 32"
  shows "uint (of_nat (nat i * scale + offset) :: 8 word) = i * 8 + 4"
proof -
  have "nat i * scale + offset < 256" using assms by (simp add: consts_simps)
  then have "uint (of_nat (nat i * scale + offset) :: 8 word) = int (nat i * scale + offset)"
    by (rule uint_of_nat_small)
  also have "\<dots> = i * 8 + 4" using assms by (simp add: consts_simps)
  finally show ?thesis .
qed

lemma lerp_grid:
  assumes "1 \<le> q" "q < 32"
  shows "lerp r (of_nat (nat (q - 1) * scale + offset)) (of_nat (nat q * scale + offset))
         = 8 * q + r - 4"
proof -
  have a: "uint (of_nat (nat (q - 1) * scale + offset) :: 8 word) = (q - 1) * 8 + 4"
    using assms by (intro grid_byte) simp_all
  have b: "uint (of_nat (nat q * scale + offset) :: 8 word) = q * 8 + 4"
    using assms by (intro grid_byte) simp_all
  have "(8 - r) * ((q - 1) * 8 + 4) + r * (q * 8 + 4) = 8 * (8 * q + r - 4)"
    by (simp add: algebra_simps)
  then show ?thesis
    unfolding lerp_def a b by (simp only: drop_bit_eq_div) simp
qed

lemma identity_channel_mid:
  assumes "4 \<le> uint c" "uint c < 252"
  shows "lerp ((uint c + 4) mod 8)
           (of_nat (nat ((uint c + 4) div 8 - 1) * scale + offset))
           (of_nat (nat ((uint c + 4) div 8) * scale + offset)) = uint c"
proof -
  have "1 \<le> (uint c + 4) div 8" "(uint c + 4) div 8 < 32" using assms by simp_all
  then have "lerp ((uint c + 4) mod 8)
           (of_nat (nat ((uint c + 4) div 8 - 1) * scale + offset))
           (of_nat (nat ((uint c + 4) div 8) * scale + offset))
           = 8 * ((uint c + 4) div 8) + (uint c + 4) mod 8 - 4"
    by (rule lerp_grid)
  also have "\<dots> = uint c" by presburger
  finally show ?thesis .
qed

lemma identity_channel:
  "(case lut_coords True c of (i0, i1, s) \<Rightarrow>
      lerp s (of_nat (nat i0 * scale + offset)) (of_nat (nat i1 * scale + offset))) = uint c"
proof -
  consider "uint c < 4" | "4 \<le> uint c" "uint c < 252" | "252 \<le> uint c" by linarith
  then show ?thesis
  proof cases
    case 1
    then show ?thesis
      by (simp add: lut_coords_extrapolate lerp_def consts_simps uint_of_nat_small drop_bit_eq_div)
  next
    case 2
    then show ?thesis
      using identity_channel_mid [of c] by (simp add: lut_coords_extrapolate)
  next
    case 3
    then show ?thesis
      by (simp add: lut_coords_extrapolate lerp_def consts_simps uint_of_nat_small drop_bit_eq_div)
  qed
qed

lemma fold_store_k:
  "fold (\<lambda>k lut. lut_store lut i j k (g k)) ks lut a b c =
     (if a = i \<and> b = j \<and> c \<in> set ks then g c else lut a b c)"
  by (induction ks arbitrary: lut) (auto simp: lut_store_def)

lemma fold_store_j:
  "fold (\<lambda>j. fold (\<lambda>k lut. lut_store lut i j k (g j k)) ks) js lut a b c =
     (if a = i \<and> b \<in> set js \<and> c \<in> set ks then g b c else lut a b c)"
  by (induction js arbitrary: lut) (auto simp: fold_store_k)

lemma fold_store_i:
  "fold (\<lambda>i. fold (\<lambda>j. fold (\<lambda>k lut. lut_store lut i j k (g i j k)) ks) js) is lut a b c =
     (if a \<in> set is \<and> b \<in> set js \<and> c \<in> set ks then g a b c else lut a b c)"
  by (induction "is" arbitrary: lut) (auto simp: fold_store_j)

lemma CreateIdentityLUT_cell:
  "CreateIdentityLUT rgbLUT i j k =
     (if i < kLUTSize \<and> j < kLUTSize \<and> k < kLUTSize then identity_pixel i j k else rgbLUT i j k)"
  unfolding CreateIdentityLUT_def by (simp add: fold_store_i)

lemma identity_channel':
  "lerp (lut_weight True c)
     (of_nat (nat (fst (lut_coords True c)) * scale + offset))
     (of_nat (nat (fst (snd (lut_coords True c))) * scale + offset)) = uint c"
proof -
  obtain i0 i1 s where t: "lut_coords True c = (i0, i1, s)" by (cases "lut_coords True c") auto
  show ?thesis using identity_channel [of c] unfolding lut_weight_def t by (simp only: prod.case fst_conv snd_conv)
qed

lemma coords_in_cube:
  "nat (fst (lut_coords e c)) < kLUTSize" "nat (fst (snd (lut_coords e c))) < kLUTSize"
proof -
  obtain i0 i1 s where t: "lut_coords e c = (i0, i1, s)" by (cases "lut_coords e c") auto
  have "index_asserts (i0, i1, s)" using index_asserts_hold [of e c] by (simp add: t)
  then show "nat (fst (lut_coords e c)) < kLUTSize" "nat (fst (snd (lut_coords e c))) < kLUTSize"
    by (auto simp: t index_asserts_def)
qed

lemma clamp_ch_byte: "clamp_ch e (uint (c :: 8 word)) = uint c"
  using uint8_range [of c] by (simp add: clamp_ch_def)

lemma channel_assert_byte: "channel_assert (uint (c :: 8 word))"
  using uint8_range [of c] by (simp add: channel_assert_def)

lemma ApplyLUT_pixel_identity:
  "ApplyLUT_pixel True (CreateIdentityLUT rgbLUT) p = Some (p\<lparr> c3 := 255 \<rparr>)"
proof -
  let ?L = "CreateIdentityLUT rgbLUT"
  have l0: "lutC0 True ?L p =
      identity_pixel (nat (fst (lut_coords True (c2 p)))) (nat (fst (lut_coords True (c1 p))))
        (nat (fst (lut_coords True (c0 p))))"
    by (simp add: lutC0_def CreateIdentityLUT_cell coords_in_cube)
  have l1: "lutC1 True ?L p =
      identity_pixel (nat (fst (snd (lut_coords True (c2 p))))) (nat (fst (snd (lut_coords True (c1 p)))))
        (nat (fst (snd (lut_coords True (c0 p)))))"
    by (simp add: lutC1_def CreateIdentityLUT_cell coords_in_cube)
  have ch0: "lerp (lut_weight True (c0 p)) (c0 (lutC0 True ?L p)) (c0 (lutC1 True ?L p)) = uint (c0 p)"
    unfolding l0 l1 identity_pixel_def by (simp only: RGBA32.select_convs identity_channel')
  have ch1: "lerp (lut_weight True (c1 p)) (c1 (lutC0 True ?L p)) (c1 (lutC1 True ?L p)) = uint (c1 p)"
    unfolding l0 l1 identity_pixel_def by (simp only: RGBA32.select_convs identity_channel')
  have ch2: "lerp (lut_weight True (c2 p)) (c2 (lutC0 True ?L p)) (c2 (lutC1 True ?L p)) = uint (c2 p)"
    unfolding l0 l1 identity_pixel_def by (simp only: RGBA32.select_convs identity_channel')
  show ?thesis
    unfolding ApplyLUT_pixel_def Let_def ch0 ch1 ch2
    by (simp add: index_asserts_hold clamp_ch_byte channel_assert_byte)
qed

section \<open>The pixel loop\<close>

lemma for_each_append:
  "for_each (xs @ ys) body s =
     (case for_each xs body s of None \<Rightarrow> None | Some s' \<Rightarrow> for_each ys body s')"
  by (induction xs arbitrary: s) (auto split: option.splits)

lemma pixel_loop_upto:
  assumes "m \<le> length dataIn" "m \<le> length dataOut" "\<And>i. i < m \<Longrightarrow> f (dataIn ! i) = Some (g (dataIn ! i))"
  shows "for_each [0..<m]
       (\<lambda>i out. if i < length dataIn \<and> i < length out
                 then map_option (\<lambda>q. out[i := q]) (f (dataIn ! i)) else None)
       dataOut = Some (map g (take m dataIn) @ drop m dataOut)"
  using assms
proof (induction m)
  case 0
  then show ?case by simp
next
  case (Suc m)
  have len: "m < length (map g (take m dataIn) @ drop m dataOut)" using Suc.prems by simp
  have d: "drop m dataOut = dataOut ! m # drop (Suc m) dataOut"
    using Suc.prems by (simp add: Cons_nth_drop_Suc)
  have "(map g (take m dataIn) @ drop m dataOut)[m := g (dataIn ! m)]
        = map g (take m dataIn) @ (drop m dataOut)[0 := g (dataIn ! m)]"
    using Suc.prems by (simp add: list_update_append)
  also have "\<dots> = map g (take m dataIn) @ g (dataIn ! m) # drop (Suc m) dataOut"
    by (subst d) simp
  also have "\<dots> = map g (take (Suc m) dataIn) @ drop (Suc m) dataOut"
    using Suc.prems by (simp add: take_Suc_conv_app_nth)
  finally have upd: "(map g (take m dataIn) @ drop m dataOut)[m := g (dataIn ! m)]
        = map g (take (Suc m) dataIn) @ drop (Suc m) dataOut" .
  show ?case
    using Suc upd len by (simp add: for_each_append)
qed

lemma pixel_loop_Some:
  assumes "nat n \<le> length dataIn" "nat n \<le> length dataOut"
    and "\<And>p. f p = Some (g p)"
  shows "pixel_loop f n dataIn dataOut = Some (map g (take (nat n) dataIn) @ drop (nat n) dataOut)"
  unfolding pixel_loop_def using assms by (intro pixel_loop_upto) simp_all

section \<open>Identity round trip, assertions, point sampling\<close>

lemma channel_assert_clamp: "channel_assert (clamp_ch True ch)"
  by (simp add: channel_assert_def clamp_ch_def)

lemma ApplyLUT_pixel_extrapolate:
  "ApplyLUT_pixel True rgbLUT p =
     Some \<lparr> c0 = of_int (clamp_ch True (lerp (lut_weight True (c0 p))
                  (c0 (lutC0 True rgbLUT p)) (c0 (lutC1 True rgbLUT p)))),
            c1 = of_int (clamp_ch True (lerp (lut_weight True (c1 p))
                  (c1 (lutC0 True rgbLUT p)) (c1 (lutC1 True rgbLUT p)))),
            c2 = of_int (clamp_ch True (lerp (lut_weight True (c2 p))
                  (c2 (lutC0 True rgbLUT p)) (c2 (lutC1 True rgbLUT p)))),
            c3 = 255 \<rparr>"
  unfolding ApplyLUT_pixel_def Let_def
  by (simp only: index_asserts_hold channel_assert_clamp simp_thms if_False)

lemma ApplyLUT_identity_image:
  assumes "nat n \<le> length dataIn" "nat n \<le> length dataOut"
  shows "ApplyLUT (CreateIdentityLUT rgbLUT) n dataIn dataOut
         = Some (map (\<lambda>p. p\<lparr> c3 := 255 \<rparr>) (take (nat n) dataIn) @ drop (nat n) dataOut)"
  unfolding ApplyLUT_def EXTRAPOLATE_LUT_def
  using assms by (intro pixel_loop_Some) (simp_all add: ApplyLUT_pixel_identity)

text \<open>
  Claim C2. A cube filled by \<open>CreateIdentityLUT\<close> and sampled by \<open>ApplyLUT\<close> over an
  image of \<open>n\<close> pixels returns an image in which every channel of every pixel is within one
  level of the input, whatever the 8-bit values of the input are (the assertions do not
  fire, so there is a result).
\<close>

theorem identity_LUT_round_trip:
  assumes "nat n \<le> length dataIn" and "nat n \<le> length dataOut"
  shows "\<exists>out. ApplyLUT (CreateIdentityLUT rgbLUT) n dataIn dataOut = Some out \<and>
           length out = length dataOut \<and>
           (\<forall>i < nat n.
              \<bar>uint (c0 (out ! i)) - uint (c0 (dataIn ! i))\<bar> \<le> 1 \<and>
              \<bar>uint (c1 (out ! i)) - uint (c1 (dataIn ! i))\<bar> \<le> 1 \<and>
              \<bar>uint (c2 (out ! i)) - uint (c2 (dataIn ! i))\<bar> \<le> 1)"
proof -
  let ?out = "map (\<lambda>p. p\<lparr> c3 := 255 \<rparr>) (take (nat n) dataIn) @ drop (nat n) dataOut"
  have "ApplyLUT (CreateIdentityLUT rgbLUT) n dataIn dataOut = Some ?out"
    using assms by (rule ApplyLUT_identity_image)
  moreover have "length ?out = length dataOut" using assms by simp
  moreover have "?out ! i = (dataIn ! i)\<lparr> c3 := 255 \<rparr>" if "i < nat n" for i
    using that assms by (simp add: nth_append)
  ultimately show ?thesis by simp
qed

text \<open>
  Claim C2 at an image of two pixels.
\<close>

theorem identity_LUT_round_trip_witness:
  "\<exists>out. ApplyLUT (CreateIdentityLUT blank_LUT) 2
            [px 0 128 255 255, px 3 252 77 255] [px 0 0 0 0, px 0 0 0 0] = Some out \<and>
         length out = 2 \<and>
         \<bar>uint (c0 (out ! 1)) - uint (c0 ([px 0 128 255 255, px 3 252 77 255] ! 1))\<bar> \<le> 1 \<and>
         \<bar>uint (c1 (out ! 1)) - uint (c1 ([px 0 128 255 255, px 3 252 77 255] ! 1))\<bar> \<le> 1 \<and>
         \<bar>uint (c2 (out ! 1)) - uint (c2 ([px 0 128 255 255, px 3 252 77 255] ! 1))\<bar> \<le> 1"
proof -
  have h1: "nat 2 \<le> length [px 0 128 255 255, px 3 252 77 255]" by simp
  have h2: "nat 2 \<le> length [px 0 0 0 0, px 0 0 0 0]" by simp
  obtain out where o: "ApplyLUT (CreateIdentityLUT blank_LUT) 2
            [px 0 128 255 255, px 3 252 77 255] [px 0 0 0 0, px 0 0 0 0] = Some out"
      "length out = length [px 0 0 0 0, px 0 0 0 0]"
      "\<forall>i < nat 2.
              \<bar>uint (c0 (out ! i)) - uint (c0 ([px 0 128 255 255, px 3 252 77 255] ! i))\<bar> \<le> 1 \<and>
              \<bar>uint (c1 (out ! i)) - uint (c1 ([px 0 128 255 255, px 3 252 77 255] ! i))\<bar> \<le> 1 \<and>
              \<bar>uint (c2 (out ! i)) - uint (c2 ([px 0 128 255 255, px 3 252 77 255] ! i))\<bar> \<le> 1"
    using identity_LUT_round_trip [OF h1 h2] by blast
  have "(1::nat) < nat 2" by simp
  with o(3) have "\<bar>uint (c0 (out ! 1)) - uint (c0 ([px 0 128 255 255, px 3 252 77 255] ! 1))\<bar> \<le> 1 \<and>
              \<bar>uint (c1 (out ! 1)) - uint (c1 ([px 0 128 255 255, px 3 252 77 255] ! 1))\<bar> \<le> 1 \<and>
              \<bar>uint (c2 (out ! 1)) - uint (c2 ([px 0 128 255 255, px 3 252 77 255] ! 1))\<bar> \<le> 1"
    by blast
  with o(1,2) show ?thesis by auto
qed

text \<open>
  Claim C3. For every input byte the indices \<open>i0\<close> and \<open>i1\<close> left by the boundary policy
  lie in \<open>[0, 32)\<close>, so the index assertions hold; every blended value lies in
  \<open>[0, 255]\<close> after the clamp, so the channel assertions hold; hence the pixel body of
  \<open>ApplyLUT\<close> returns a pixel for every cube and every input pixel.
\<close>

theorem ApplyLUT_assertions_never_fire:
  "index_asserts (lut_coords EXTRAPOLATE_LUT ci) \<and>
   (case lut_coords EXTRAPOLATE_LUT ci of (i0, i1, s) \<Rightarrow> 0 \<le> i0 \<and> i0 < 32 \<and> 0 \<le> i1 \<and> i1 < 32) \<and>
   channel_assert (clamp_ch EXTRAPOLATE_LUT ch) \<and>
   0 \<le> clamp_ch EXTRAPOLATE_LUT ch \<and> clamp_ch EXTRAPOLATE_LUT ch \<le> 255 \<and>
   (\<exists>q. ApplyLUT_pixel EXTRAPOLATE_LUT rgbLUT p = Some q)"
proof -
  have a: "index_asserts (lut_coords True ci)" by (rule index_asserts_hold)
  then have b: "case lut_coords True ci of (i0, i1, s) \<Rightarrow> 0 \<le> i0 \<and> i0 < 32 \<and> 0 \<le> i1 \<and> i1 < 32"
    by (cases "lut_coords True ci") (simp add: index_asserts_def consts_simps)
  have c: "channel_assert (clamp_ch True ch)" by (rule channel_assert_clamp)
  then have d: "0 \<le> clamp_ch True ch \<and> clamp_ch True ch \<le> 255" by (simp add: channel_assert_def)
  have e: "\<exists>q. ApplyLUT_pixel True rgbLUT p = Some q"
    by (subst ApplyLUT_pixel_extrapolate) blast
  show ?thesis unfolding EXTRAPOLATE_LUT_def using a b c d e by blast
qed

text \<open>
  Claim C10. \<open>ApplyLUTNoLerp\<close> writes to \<^verbatim>\<open>dataOut[i]\<close> the whole cube entry
  \<^verbatim>\<open>rgbLUT[c[2]>>3][c[1]>>3][c[0]>>3]\<close>, alpha byte included, while \<open>ApplyLUT\<close> writes
  alpha 255; so the alpha that \<open>ApplyLUTNoLerp\<close> writes is 255 exactly when the entry's
  alpha is 255.
\<close>

theorem ApplyLUTNoLerp_verbatim:
  assumes "nat n \<le> length dataIn" and "nat n \<le> length dataOut" and "i < nat n"
  shows "\<exists>out out'. ApplyLUTNoLerp rgbLUT n dataIn dataOut = Some out \<and>
           out ! i = rgbLUT (nat (drop_bit 3 (uint (c2 (dataIn ! i)))))
                            (nat (drop_bit 3 (uint (c1 (dataIn ! i)))))
                            (nat (drop_bit 3 (uint (c0 (dataIn ! i))))) \<and>
           ApplyLUT rgbLUT n dataIn dataOut = Some out' \<and>
           c3 (out' ! i) = 255 \<and>
           (c3 (out ! i) = 255) =
             (c3 (rgbLUT (nat (drop_bit 3 (uint (c2 (dataIn ! i)))))
                         (nat (drop_bit 3 (uint (c1 (dataIn ! i)))))
                         (nat (drop_bit 3 (uint (c0 (dataIn ! i)))))) = 255)"
proof -
  let ?g = "ApplyLUTNoLerp_pixel rgbLUT"
  let ?h = "\<lambda>p. the (ApplyLUT_pixel True rgbLUT p)"
  let ?out = "map ?g (take (nat n) dataIn) @ drop (nat n) dataOut"
  let ?out' = "map ?h (take (nat n) dataIn) @ drop (nat n) dataOut"
  have 1: "ApplyLUTNoLerp rgbLUT n dataIn dataOut = Some ?out"
    unfolding ApplyLUTNoLerp_def using assms(1,2) by (intro pixel_loop_Some) simp_all
  have 2: "ApplyLUT rgbLUT n dataIn dataOut = Some ?out'"
    unfolding ApplyLUT_def EXTRAPOLATE_LUT_def using assms(1,2)
    by (intro pixel_loop_Some) (simp_all add: ApplyLUT_pixel_extrapolate)
  have 3: "?out ! i = ?g (dataIn ! i)" using assms by (simp add: nth_append)
  have 4: "?out' ! i = ?h (dataIn ! i)" using assms by (simp add: nth_append)
  have 5: "c3 (?h (dataIn ! i)) = 255" by (simp add: ApplyLUT_pixel_extrapolate)
  have 6: "?g (dataIn ! i) = rgbLUT (nat (drop_bit 3 (uint (c2 (dataIn ! i)))))
                            (nat (drop_bit 3 (uint (c1 (dataIn ! i)))))
                            (nat (drop_bit 3 (uint (c0 (dataIn ! i)))))"
    by (simp add: ApplyLUTNoLerp_pixel_def consts_simps)
  show ?thesis
    apply (rule exI [of _ ?out], rule exI [of _ ?out'])
    unfolding 3 4 using 1 2 5 6 by simp
qed

text \<open>
  Claim C10 at an image of one pixel and a cube whose entries have alpha 0.
\<close>

theorem ApplyLUTNoLerp_verbatim_witness:
  "nat 1 \<le> length [px 9 9 9 255] \<and> nat 1 \<le> length [px 0 0 0 0] \<and> (0::nat) < nat 1 \<and>
   (\<exists>out out'. ApplyLUTNoLerp blank_LUT 1 [px 9 9 9 255] [px 0 0 0 0] = Some out \<and>
           out ! 0 = blank_LUT (nat (drop_bit 3 (uint (c2 ([px 9 9 9 255] ! 0)))))
                            (nat (drop_bit 3 (uint (c1 ([px 9 9 9 255] ! 0)))))
                            (nat (drop_bit 3 (uint (c0 ([px 9 9 9 255] ! 0))))) \<and>
           ApplyLUT blank_LUT 1 [px 9 9 9 255] [px 0 0 0 0] = Some out' \<and>
           c3 (out' ! 0) = 255 \<and>
           (c3 (out ! 0) = 255) =
             (c3 (blank_LUT (nat (drop_bit 3 (uint (c2 ([px 9 9 9 255] ! 0)))))
                         (nat (drop_bit 3 (uint (c1 ([px 9 9 9 255] ! 0)))))
                         (nat (drop_bit 3 (uint (c0 ([px 9 9 9 255] ! 0)))))) = 255))"
proof -
  have h1: "nat 1 \<le> length [px 9 9 9 255]" by simp
  have h2: "nat 1 \<le> length [px 0 0 0 0]" by simp
  have h3: "(0::nat) < nat 1" by simp
  show ?thesis
    using ApplyLUTNoLerp_verbatim [OF h1 h2 h3, of blank_LUT] h1 h2 h3 by blast
qed

section \<open>Boundary extrapolation\<close>

lemma half_step: "(12 * x - 4 * y) div 8 = x + (x - y) div (2::int)"
proof -
  have "12 * x - 4 * y = 4 * (x - y) + x * 8" by simp
  moreover have "(4 * (x - y) + x * 8) div 8 = x + (4 * (x - y)) div 8" by simp
  moreover have "(4 * (x - y)) div 8 = (x - y) div 2"
    using div_mult_mult1 [of 4 "x - y" 2] by simp
  ultimately show ?thesis by simp
qed

lemma lerp_at_zero:
  "clamp_ch True (lerp (- 4) a b) = max 0 (min 255 (uint a + (uint a - uint b) div 2))"
proof -
  have "lerp (- 4) a b = (12 * uint a - 4 * uint b) div 8"
    by (simp add: lerp_def drop_bit_eq_div)
  then have "lerp (- 4) a b = uint a + (uint a - uint b) div 2"
    by (simp only: half_step)
  then show ?thesis by (simp add: clamp_ch_def)
qed

lemma extrap_int:
  fixes x y :: int
  assumes "0 \<le> x" "x < 256" "0 \<le> y" "y < 256"
  shows "(max 0 (min 255 (x + (x - y) div 2)) \<noteq> x) =
         ((x < y \<and> 0 < x) \<or> (y + 2 \<le> x \<and> x < 255))"
proof -
  define d where "d = (x - y) div 2"
  have d: "2 * d \<le> x - y" "x - y < 2 * d + 2" unfolding d_def by presburger+
  show ?thesis unfolding d_def [symmetric] using d assms by (auto simp: max_def min_def)
qed

lemma extrap_differs_iff:
  "(clamp_ch True (lerp (- 4) a b) \<noteq> uint a) =
     ((uint a < uint b \<and> 0 < uint a) \<or> (uint b + 2 \<le> uint a \<and> uint a < 255))"
  unfolding lerp_at_zero using uint8_range [of a] uint8_range [of b] by (intro extrap_int) simp_all

lemma weight_at_zero: "lut_weight True 0 = - 4"
  by (simp add: lut_weight_def lut_coords_extrapolate)

text \<open>
  Claim C4, amended. In extrapolation mode, below the first grid centre (channel value under 4) the policy
  moves \<open>i1\<close> from 0 to 1 and takes 8 from the weight; above the last one (channel value
  from 252) it moves \<open>i0\<close> from 31 to 30 and adds 8 to the weight; clamp mode would pin
  both indices instead. Each output channel is the blend of the two entries read,
  clamped to \<open>[0, 255]\<close>. At channel value 0 the weight is \<open>-4\<close> and the result is
  \<open>a + \<lfloor>(a - b) / 2\<rfloor>\<close> clamped to \<open>[0, 255]\<close>, for \<open>a\<close>, \<open>b\<close> the channel in the
  first and second entry read: it differs from the first sample \<open>a\<close> exactly when
  \<open>a < b\<close> and \<open>0 < a\<close>, or \<open>b + 2 \<le> a\<close> and \<open>a < 255\<close>.
\<close>

theorem boundary_extrapolation:
  "lut_coords EXTRAPOLATE_LUT ci =
     (if uint ci < 4 then (0, 0 + 1, (uint ci + 4) - 8)
      else if 252 \<le> uint ci then (31 - 1, 31, (uint ci + 4 - 256) + 8)
      else ((uint ci + 4) div 8 - 1, (uint ci + 4) div 8, (uint ci + 4) mod 8)) \<and>
   lut_coords False ci =
     (if uint ci < 4 then (0, 0, uint ci + 4)
      else if 252 \<le> uint ci then (31, 31, uint ci + 4 - 256)
      else ((uint ci + 4) div 8 - 1, (uint ci + 4) div 8, (uint ci + 4) mod 8)) \<and>
   ApplyLUT_pixel EXTRAPOLATE_LUT rgbLUT p =
     Some \<lparr> c0 = of_int (clamp_ch True (lerp (lut_weight True (c0 p))
                  (c0 (lutC0 True rgbLUT p)) (c0 (lutC1 True rgbLUT p)))),
            c1 = of_int (clamp_ch True (lerp (lut_weight True (c1 p))
                  (c1 (lutC0 True rgbLUT p)) (c1 (lutC1 True rgbLUT p)))),
            c2 = of_int (clamp_ch True (lerp (lut_weight True (c2 p))
                  (c2 (lutC0 True rgbLUT p)) (c2 (lutC1 True rgbLUT p)))),
            c3 = 255 \<rparr> \<and>
   0 \<le> clamp_ch True ch \<and> clamp_ch True ch \<le> 255 \<and>
   lut_weight True 0 = - 4 \<and>
   clamp_ch True (lerp (- 4) a b) = max 0 (min 255 (uint a + (uint a - uint b) div 2)) \<and>
   (clamp_ch True (lerp (- 4) a b) \<noteq> uint a) =
     ((uint a < uint b \<and> 0 < uint a) \<or> (uint b + 2 \<le> uint a \<and> uint a < 255))"
proof -
  have 1: "lut_coords True ci =
     (if uint ci < 4 then (0, 0 + 1, (uint ci + 4) - 8)
      else if 252 \<le> uint ci then (31 - 1, 31, (uint ci + 4 - 256) + 8)
      else ((uint ci + 4) div 8 - 1, (uint ci + 4) div 8, (uint ci + 4) mod 8))"
    by (simp add: lut_coords_extrapolate)
  have 2: "lut_coords False ci =
     (if uint ci < 4 then (0, 0, uint ci + 4)
      else if 252 \<le> uint ci then (31, 31, uint ci + 4 - 256)
      else ((uint ci + 4) div 8 - 1, (uint ci + 4) div 8, (uint ci + 4) mod 8))"
    by (simp add: lut_coords_clamp)
  have 3: "0 \<le> clamp_ch True ch \<and> clamp_ch True ch \<le> 255" by (simp add: clamp_ch_def)
  show ?thesis
    unfolding EXTRAPOLATE_LUT_def
    using 1 2 3 ApplyLUT_pixel_extrapolate [of rgbLUT p] weight_at_zero lerp_at_zero [of a b]
      extrap_differs_iff [of a b]
    by (simp only: simp_thms)
qed

text \<open>
  Claim C4 as stated fails: in a cube that is black in the first red cell and at level 8
  in the next, the two samples differ, and sampling channel value 0 extrapolates to
  \<open>-4\<close>, which the clamp brings back to the first sample; the clamp-mode result is the
  same.
\<close>

theorem boundary_extrapolation_counterexample:
  "ApplyLUT_pixel EXTRAPOLATE_LUT dark_edge_LUT (px 0 0 0 255) = Some (px 0 0 0 255) \<and>
   ApplyLUT_pixel False dark_edge_LUT (px 0 0 0 255) = Some (px 0 0 0 255) \<and>
   dark_edge_LUT 0 0 0 = px 0 0 0 255 \<and>
   dark_edge_LUT 0 0 1 = px 8 8 8 255 \<and>
   lutC0 EXTRAPOLATE_LUT dark_edge_LUT (px 0 0 0 255) = px 0 0 0 255 \<and>
   lutC1 EXTRAPOLATE_LUT dark_edge_LUT (px 0 0 0 255) = px 8 8 8 255"
proof -
  have c: "lut_coords True 0 = (0, 1, - 4)" "lut_coords False 0 = (0, 0, 4)"
    by (simp_all add: lut_coords_extrapolate lut_coords_clamp)
  have l: "lerp (- 4) 0 8 = - 4" "lerp 4 0 0 = 0" by (simp_all add: lerp_def drop_bit_eq_div)
  show ?thesis
    unfolding EXTRAPOLATE_LUT_def
    by (simp add: ApplyLUT_pixel_def lutC0_def lutC1_def lut_weight_def c px_def dark_edge_LUT_def
        index_asserts_def consts_simps l clamp_ch_def channel_assert_def)
qed

section \<open>Building a cube; packing and unpacking\<close>

declare of_int_uint [simp del]

lemma byte_real_range: "0 \<le> real_of_int (uint (w :: 8 word))" "real_of_int (uint (w :: 8 word)) < 256"
  using uint8_range [of w] by simp_all

lemma for_each_guarded:
  "for_each xs (\<lambda>x s. if P x then Some (F x s) else None) s =
     (if \<forall>x\<in>set xs. P x then Some (fold F xs s) else None)"
  by (induction xs arbitrary: s) auto

lemma for_each_map_option:
  "for_each xs (\<lambda>x s. map_option (h x s) (c x)) s =
     (if \<forall>x\<in>set xs. c x \<noteq> None then Some (fold (\<lambda>x s. h x s (the (c x))) xs s) else None)"
proof (induction xs arbitrary: s)
  case Nil
  then show ?case by simp
next
  case (Cons a xs)
  show ?case
  proof (cases "c a")
    case None
    then show ?thesis by simp
  next
    case (Some v)
    then show ?thesis using Cons.IH [of "h a s v"] by simp
  qed
qed

lemma store_loop_k:
  "for_each ks (\<lambda>k lut. map_option (lut_store lut i j k) (c k)) =
     (\<lambda>lut. if \<forall>k\<in>set ks. c k \<noteq> None
            then Some (fold (\<lambda>k lut. lut_store lut i j k (the (c k))) ks lut) else None)"
  by (rule ext) (rule for_each_map_option [where h = "\<lambda>k lut. lut_store lut i j k"])

lemma store_loop_j:
  "for_each js (\<lambda>j. for_each ks (\<lambda>k lut. map_option (lut_store lut i j k) (c j k))) =
     (\<lambda>lut. if \<forall>j\<in>set js. \<forall>k\<in>set ks. c j k \<noteq> None
            then Some (fold (\<lambda>j. fold (\<lambda>k lut. lut_store lut i j k (the (c j k))) ks) js lut)
            else None)"
  by (rule ext) (simp only: store_loop_k for_each_guarded)

lemma store_loop_i:
  "for_each is (\<lambda>i. for_each js (\<lambda>j. for_each ks (\<lambda>k lut.
       map_option (lut_store lut i j k) (c i j k)))) lut =
     (if \<forall>i\<in>set is. \<forall>j\<in>set js. \<forall>k\<in>set ks. c i j k \<noteq> None
      then Some (fold (\<lambda>i. fold (\<lambda>j. fold (\<lambda>k lut.
             lut_store lut i j k (the (c i j k))) ks) js) is lut)
      else None)"
  by (simp only: store_loop_j for_each_guarded)

lemma CreateLUT_eq:
  "CreateLUT xform rgbLUT =
     (if \<forall>i<kLUTSize. \<forall>j<kLUTSize. \<forall>k<kLUTSize. CreateLUT_cell xform i j k \<noteq> None
      then Some (fold (\<lambda>i. fold (\<lambda>j. fold (\<lambda>k lut.
              lut_store lut i j k (the (CreateLUT_cell xform i j k)))
              [0..<kLUTSize]) [0..<kLUTSize]) [0..<kLUTSize] rgbLUT)
      else None)"
  unfolding CreateLUT_def store_loop_i by simp

lemma CreateLUT_Some:
  assumes "CreateLUT xform rgbLUT = Some lut"
    and "i < kLUTSize" "j < kLUTSize" "k < kLUTSize"
  shows "CreateLUT_cell xform i j k = Some (lut i j k)"
proof -
  have all: "\<forall>i<kLUTSize. \<forall>j<kLUTSize. \<forall>k<kLUTSize. CreateLUT_cell xform i j k \<noteq> None"
    using assms(1) unfolding CreateLUT_eq by (simp split: if_splits)
  then have "lut = fold (\<lambda>i. fold (\<lambda>j. fold (\<lambda>k lut.
              lut_store lut i j k (the (CreateLUT_cell xform i j k)))
              [0..<kLUTSize]) [0..<kLUTSize]) [0..<kLUTSize] rgbLUT"
    using assms(1) unfolding CreateLUT_eq by simp
  then have "lut i j k = the (CreateLUT_cell xform i j k)"
    using assms(2-4) by (simp add: fold_store_i)
  moreover have "CreateLUT_cell xform i j k \<noteq> None" using all assms(2-4) by blast
  ultimately show ?thesis by auto
qed

lemma powf_nonneg: "0 \<le> b \<Longrightarrow> powf b e = Some (b powr e)"
  by (simp add: powf_def)

lemma pow_nonneg:
  "0 \<le> vx v \<Longrightarrow> 0 \<le> vy v \<Longrightarrow> 0 \<le> vz v \<Longrightarrow>
   pow v p = Some (vec3 (vx v powr p) (vy v powr p) (vz v powr p))"
  by (simp add: pow_def powf_nonneg)

lemma pow_negative:
  "vx v < 0 \<or> vy v < 0 \<or> vz v < 0 \<Longrightarrow> pow v p = None"
  by (auto simp: pow_def powf_def split: option.splits)

lemma vec3_sel [simp]: "vx (vec3 a b c) = a" "vy (vec3 a b c) = b" "vz (vec3 a b c) = c"
  by (simp_all add: vec3_def)

lemma FromRGBA32u_eq:
  "FromRGBA32u rgb = Some (vec3 ((real_of_int (uint (c0 rgb)) / 256) powr kGamma)
                               ((real_of_int (uint (c1 rgb)) / 256) powr kGamma)
                               ((real_of_int (uint (c2 rgb)) / 256) powr kGamma))"
  unfolding FromRGBA32u_def by (subst pow_nonneg) (simp_all add: byte_real_range)

lemma FromRGBA32_eq:
  "FromRGBA32 rgb = Some (vec3 ((real_of_int (uint (c0 rgb)) / 255) powr kGamma)
                              ((real_of_int (uint (c1 rgb)) / 255) powr kGamma)
                              ((real_of_int (uint (c2 rgb)) / 255) powr kGamma))"
  unfolding FromRGBA32_def by (subst pow_nonneg) (simp_all add: byte_real_range)

lemma ToRGBA32u_nonneg:
  assumes "0 \<le> vx c" "0 \<le> vy c" "0 \<le> vz c"
  shows "ToRGBA32u c = Some \<lparr> c0 = ToU8u (vx c powr (1 / kGamma)), c1 = ToU8u (vy c powr (1 / kGamma)),
                              c2 = ToU8u (vz c powr (1 / kGamma)), c3 = 255 \<rparr>"
  unfolding ToRGBA32u_def by (simp add: pow_nonneg assms)

lemma ToRGBA32_nonneg:
  assumes "0 \<le> vx c" "0 \<le> vy c" "0 \<le> vz c"
  shows "ToRGBA32 c = Some \<lparr> c0 = ToU8 (vx c powr (1 / kGamma)), c1 = ToU8 (vy c powr (1 / kGamma)),
                             c2 = ToU8 (vz c powr (1 / kGamma)), c3 = 255 \<rparr>"
  unfolding ToRGBA32_def by (simp add: pow_nonneg assms)

lemma ToRGBA32u_alpha: "ToRGBA32u c = Some q \<Longrightarrow> c3 q = 255"
  by (auto simp: ToRGBA32u_def split: option.splits)

lemma CreateLUT_cell_alpha: "CreateLUT_cell xform i j k = Some q \<Longrightarrow> c3 q = 255"
  by (auto simp: CreateLUT_cell_def FromRGBA32u_eq dest: ToRGBA32u_alpha)

section \<open>Sampling a built cube at its cell centres\<close>

lemma grid_byte_nat: "k < 32 \<Longrightarrow> uint (of_nat (k * scale + offset) :: 8 word) = int k * 8 + 4"
  using grid_byte [of "int k"] by simp

lemma centre_coords:
  assumes "k < 32"
  shows "lut_coords True (of_nat (k * scale + offset)) =
           (if k < 31 then (int k, int k + 1, 0) else (30, 31, 8))"
proof -
  have u: "uint (of_nat (k * scale + offset) :: 8 word) = int k * 8 + 4"
    using assms by (rule grid_byte_nat)
  have d: "(int k * 8 + 4 + 4) div 8 = int k + 1" "(int k * 8 + 4 + 4) mod 8 = 0" by simp_all
  show ?thesis
    unfolding lut_coords_extrapolate u using assms by (auto simp: d)
qed

lemma lerp_0: "lerp 0 a b = uint a"
  by (simp add: lerp_def drop_bit_eq_div)

lemma lerp_8: "lerp 8 a b = uint b"
  by (simp add: lerp_def drop_bit_eq_div)

lemma of_int_clamp_byte: "of_int (clamp_ch True (uint (a :: 8 word))) = a"
  by (simp add: clamp_ch_byte word_of_int_uint)

lemma ApplyLUT_pixel_centre_inner:
  assumes "i < 31" "j < 31" "k < 31"
  shows "ApplyLUT_pixel True lut (identity_pixel i j k) = Some ((lut i j k)\<lparr> c3 := 255 \<rparr>)"
proof -
  have c: "lut_coords True (c0 (identity_pixel i j k)) = (int k, int k + 1, 0)"
      "lut_coords True (c1 (identity_pixel i j k)) = (int j, int j + 1, 0)"
      "lut_coords True (c2 (identity_pixel i j k)) = (int i, int i + 1, 0)"
    using assms unfolding identity_pixel_def
    by (simp_all only: RGBA32.select_convs) (simp_all only: centre_coords if_True)
  show ?thesis
    unfolding ApplyLUT_pixel_extrapolate lutC0_def lutC1_def lut_weight_def c
    by (simp add: lerp_0 of_int_clamp_byte)
qed

lemma ApplyLUT_pixel_centre_corner:
  "ApplyLUT_pixel True lut (identity_pixel 31 31 31) = Some ((lut 31 31 31)\<lparr> c3 := 255 \<rparr>)"
proof -
  have c: "lut_coords True (c0 (identity_pixel 31 31 31)) = (30, 31, 8)"
      "lut_coords True (c1 (identity_pixel 31 31 31)) = (30, 31, 8)"
      "lut_coords True (c2 (identity_pixel 31 31 31)) = (30, 31, 8)"
    unfolding identity_pixel_def
    by (simp_all only: RGBA32.select_convs) (simp_all add: centre_coords [of 31] del: of_nat_add of_nat_mult)
  show ?thesis
    unfolding ApplyLUT_pixel_extrapolate lutC0_def lutC1_def lut_weight_def c
    by (simp add: lerp_8 of_int_clamp_byte)
qed

lemma identity_pixel_px:
  "identity_pixel i j k = px (k * 8 + 4) (j * 8 + 4) (i * 8 + 4) 255"
  by (simp add: identity_pixel_def px_def consts_simps)

text \<open>
  Claim C1, amended. When \<open>CreateLUT\<close> returns a cube (every transformed colour can be
  packed), the entry it stores at \<open>(i, j, k)\<close>, for all indices below 32, is
  \<open>ToRGBA32u (xform (FromRGBA32u centre))\<close> for the centre pixel
  \<open>(k*8+4, j*8+4, i*8+4, 255)\<close>; and when the three indices are all below 31, or all
  equal to 31, \<open>ApplyLUT\<close> at that centre pixel returns exactly the stored entry.
\<close>

theorem LUT_exact_at_inner_centres:
  assumes "CreateLUT xform rgbLUT \<noteq> None"
    and "i < 32" and "j < 32" and "k < 32"
  shows "stored_entry xform rgbLUT i j k =
           (case FromRGBA32u (px (k * 8 + 4) (j * 8 + 4) (i * 8 + 4) 255) of None \<Rightarrow> None
            | Some c \<Rightarrow> ToRGBA32u (xform c)) \<and>
         stored_entry xform rgbLUT i j k \<noteq> None \<and>
         ((i < 31 \<and> j < 31 \<and> k < 31) \<or> (i = 31 \<and> j = 31 \<and> k = 31) \<longrightarrow>
            sample_built_LUT xform rgbLUT (px (k * 8 + 4) (j * 8 + 4) (i * 8 + 4) 255) =
              stored_entry xform rgbLUT i j k)"
proof -
  obtain lut where lut: "CreateLUT xform rgbLUT = Some lut" using assms(1) by auto
  have r: "i < kLUTSize" "j < kLUTSize" "k < kLUTSize" using assms(2-4) by (auto simp: consts_simps)
  have cell: "CreateLUT_cell xform i j k = Some (lut i j k)"
    using lut r by (rule CreateLUT_Some)
  then have alpha: "(lut i j k)\<lparr> c3 := 255 \<rparr> = lut i j k"
    using CreateLUT_cell_alpha [of xform i j k "lut i j k"] by simp
  have app: "ApplyLUT_pixel True lut (identity_pixel i j k) = Some (lut i j k)"
    if "(i < 31 \<and> j < 31 \<and> k < 31) \<or> (i = 31 \<and> j = 31 \<and> k = 31)"
  proof -
    have "ApplyLUT_pixel True lut (identity_pixel i j k) = Some ((lut i j k)\<lparr> c3 := 255 \<rparr>)"
      using that ApplyLUT_pixel_centre_inner [of i j k lut] ApplyLUT_pixel_centre_corner [of lut]
      by auto
    then show ?thesis by (simp only: alpha)
  qed
  show ?thesis
    using cell app
    by (simp add: stored_entry_def sample_built_LUT_def lut EXTRAPOLATE_LUT_def CreateLUT_cell_def
        flip: identity_pixel_px)
qed

lemma powr_less_iff:
  fixes a b e :: real
  assumes "0 \<le> a" "0 \<le> b" "0 < e"
  shows "(a powr e < b powr e) = (a < b)"
proof
  assume "a powr e < b powr e"
  show "a < b"
  proof (rule ccontr)
    assume "\<not> a < b"
    then have "b \<le> a" by simp
    then have "b powr e \<le> a powr e" using assms by (intro powr_mono2) simp_all
    with \<open>a powr e < b powr e\<close> show False by simp
  qed
next
  assume "a < b"
  then show "a powr e < b powr e" using assms by (intro powr_less_mono2) simp_all
qed

lemma kGamma_pos: "0 < kGamma" "0 < 1 / kGamma"
  by (simp_all add: kGamma_def)

lemma ToU8u_ends: "ToU8u 0 = 0" "ToU8u 1 = 255"
  by (simp_all add: ToU8u_def)

lemma step_cell:
  assumes "j < 32" "k < 32"
  shows "CreateLUT_cell step_xform i j k =
           Some (if j < k then px 255 255 255 255 else px 0 0 0 255)"
proof -
  have u: "uint (c0 (identity_pixel i j k)) = int k * 8 + 4"
      "uint (c1 (identity_pixel i j k)) = int j * 8 + 4"
    using assms unfolding identity_pixel_def
    by (simp_all only: RGBA32.select_convs grid_byte_nat)
  have cmp: "((real_of_int (int j * 8 + 4) / 256) powr kGamma
              < (real_of_int (int k * 8 + 4) / 256) powr kGamma) = (j < k)"
    by (subst powr_less_iff) (simp_all add: kGamma_pos)
  have w: "ToRGBA32u (vec3 1 1 1) = Some (px 255 255 255 255)"
    by (subst ToRGBA32u_nonneg) (simp_all add: ToU8u_ends px_def)
  have b: "ToRGBA32u (vec3 0 0 0) = Some (px 0 0 0 255)"
    by (subst ToRGBA32u_nonneg) (simp_all add: ToU8u_ends px_def)
  show ?thesis
    unfolding CreateLUT_cell_def FromRGBA32u_eq u
    by (simp add: step_xform_def cmp w b del: of_int_add of_int_mult)
qed

lemma CreateLUT_defined:
  assumes "\<And>i j k. i < kLUTSize \<Longrightarrow> j < kLUTSize \<Longrightarrow> k < kLUTSize \<Longrightarrow> CreateLUT_cell xform i j k \<noteq> None"
  shows "CreateLUT xform rgbLUT \<noteq> None"
  unfolding CreateLUT_eq using assms by simp

lemma step_LUT_defined: "CreateLUT step_xform rgbLUT \<noteq> None"
  by (rule CreateLUT_defined) (simp add: step_cell consts_simps)

lemma step_LUT_entry:
  assumes "CreateLUT step_xform rgbLUT = Some lut" "i < 32" "j < 32" "k < 32"
  shows "lut i j k = (if j < k then px 255 255 255 255 else px 0 0 0 255)"
proof -
  have "CreateLUT_cell step_xform i j k = Some (lut i j k)"
    using assms by (intro CreateLUT_Some) (simp_all add: consts_simps)
  then show ?thesis using assms by (simp add: step_cell)
qed

text \<open>
  Claim C1 as stated fails at the centre \<open>(i, j, k) = (30, 30, 31)\<close>, pixel
  \<open>(252, 244, 244, 255)\<close>, for the transform \<open>step_xform\<close>: the stored entry is white,
  and \<open>ApplyLUT\<close> returns black, because it reads the entries \<open>(30, 30, 30)\<close> and
  \<open>(31, 31, 31)\<close> and never the entry \<open>(30, 30, 31)\<close>.
\<close>

theorem LUT_exact_at_centres_counterexample:
  "sample_built_LUT step_xform blank_LUT (px 252 244 244 255) = Some (px 0 0 0 255) \<and>
   stored_entry step_xform blank_LUT 30 30 31 = Some (px 255 255 255 255) \<and>
   (case FromRGBA32u (px 252 244 244 255) of None \<Rightarrow> None
    | Some c \<Rightarrow> ToRGBA32u (step_xform c)) = Some (px 255 255 255 255) \<and>
   px 252 244 244 255 = px (31 * 8 + 4) (30 * 8 + 4) (30 * 8 + 4) 255"
proof -
  obtain lut where lut: "CreateLUT step_xform blank_LUT = Some lut"
    using step_LUT_defined [of blank_LUT] by auto
  have e: "lut 30 30 31 = px 255 255 255 255" "lut 30 30 30 = px 0 0 0 255"
      "lut 31 31 31 = px 0 0 0 255"
    using step_LUT_entry [OF lut] by simp_all
  have c: "lut_coords True 252 = (30, 31, 8)" "lut_coords True 244 = (30, 31, 0)"
    by (simp_all add: lut_coords_extrapolate)
  have a: "ApplyLUT_pixel True lut (px 252 244 244 255) = Some (px 0 0 0 255)"
    unfolding ApplyLUT_pixel_extrapolate lutC0_def lutC1_def lut_weight_def
    by (simp add: px_def c e lerp_0 lerp_8 clamp_ch_def)
  have s: "CreateLUT_cell step_xform 30 30 31 = Some (px 255 255 255 255)"
    by (simp add: step_cell)
  have i: "identity_pixel 30 30 31 = px 252 244 244 255"
    by (simp add: identity_pixel_px)
  show ?thesis
    using a s
    by (simp add: sample_built_LUT_def stored_entry_def lut e EXTRAPOLATE_LUT_def
        CreateLUT_cell_def i)
qed

text \<open>
  Claim C1, amended, at the cell \<open>(3, 4, 5)\<close> of the cube built from \<open>step_xform\<close>.
\<close>

theorem LUT_exact_at_inner_centres_witness:
  "CreateLUT step_xform blank_LUT \<noteq> None \<and>
   stored_entry step_xform blank_LUT 3 4 5 =
           (case FromRGBA32u (px (5 * 8 + 4) (4 * 8 + 4) (3 * 8 + 4) 255) of None \<Rightarrow> None
            | Some c \<Rightarrow> ToRGBA32u (step_xform c)) \<and>
   stored_entry step_xform blank_LUT 3 4 5 \<noteq> None \<and>
   sample_built_LUT step_xform blank_LUT (px (5 * 8 + 4) (4 * 8 + 4) (3 * 8 + 4) 255) =
           stored_entry step_xform blank_LUT 3 4 5"
proof -
  have h1: "CreateLUT step_xform blank_LUT \<noteq> None" by (rule step_LUT_defined)
  have h2: "(3::nat) < 32" "(4::nat) < 32" "(5::nat) < 32" by simp_all
  have h3: "((3::nat) < 31 \<and> (4::nat) < 31 \<and> (5::nat) < 31) \<or> ((3::nat) = 31 \<and> (4::nat) = 31 \<and> (5::nat) = 31)"
    by simp
  show ?thesis
    using LUT_exact_at_inner_centres [OF h1 h2] h1 h3 by blast
qed

section \<open>Simulating mid-grey\<close>

lemma Simulate_scale:
  "Simulate (op_scale g v) d s = op_scale g (Simulate v d s)"
  by (cases d) (simp_all add: Simulate_def op_scale_def op_mul_def dot_def Let_def vec3_def algebra_simps)

lemma grey_scale: "vec3 g g g = op_scale g (vec3 1 1 1)"
  by (simp add: op_scale_def vec3_def)

lemma Simulate_white_full:
  "\<bar>vx (Simulate (vec3 1 1 1) d 1) - 1\<bar> \<le> 1 / 10 ^ 6 \<and>
   \<bar>vy (Simulate (vec3 1 1 1) d 1) - 1\<bar> \<le> 1 / 10 ^ 6 \<and>
   \<bar>vz (Simulate (vec3 1 1 1) d 1) - 1\<bar> \<le> 1 / 10 ^ 6"
  by (cases d)
    (simp_all add: Simulate_def op_mul_def dot_def Let_def vec3_def kLMSFromRGB_def kRGBFromLMS_def
      kLMSSimulate_def mat3_def)

lemma Simulate_white_none:
  "\<bar>vx (Simulate (vec3 1 1 1) d 0) - 1\<bar> \<le> 1 / 10 ^ 6 \<and>
   \<bar>vy (Simulate (vec3 1 1 1) d 0) - 1\<bar> \<le> 1 / 10 ^ 6 \<and>
   \<bar>vz (Simulate (vec3 1 1 1) d 0) - 1\<bar> \<le> 1 / 10 ^ 6"
  by (cases d)
    (simp_all add: Simulate_def op_mul_def dot_def Let_def vec3_def kLMSFromRGB_def kRGBFromLMS_def
      kLMSSimulate_def mat3_def)

lemma near_one_bounds:
  fixes B :: real
  assumes "\<bar>B - 1\<bar> \<le> 1 / 10 ^ 6"
  shows "999999 / 1000000 \<le> B" "B \<le> 1000001 / 1000000"
proof -
  have "\<bar>B - 1\<bar> \<le> 1 / 1000000" using assms by simp
  then show "999999 / 1000000 \<le> B" "B \<le> 1000001 / 1000000" by linarith+
qed

lemma near_one_from_bounds:
  fixes B :: real
  assumes "999999 / 1000000 \<le> B" "B \<le> 1000001 / 1000000"
  shows "\<bar>B - 1\<bar> \<le> 1 / 10 ^ 6"
proof -
  have "\<bar>B - 1\<bar> \<le> 1 / 1000000" using assms by linarith
  then show ?thesis by simp
qed

lemma powr_near_one:
  fixes B :: real
  assumes "\<bar>B - 1\<bar> \<le> 1 / 10 ^ 6" "0 \<le> e" "e \<le> 1"
  shows "\<bar>B powr e - 1\<bar> \<le> 1 / 10 ^ 6"
proof (cases "1 \<le> B")
  case True
  have "1 \<le> B powr e" using True assms(2) by (rule ge_one_powr_ge_zero)
  moreover have "B powr e \<le> B powr 1" using assms(3) True by (rule powr_mono)
  moreover have "B powr 1 = B" using True by simp
  ultimately show ?thesis
    using near_one_bounds [OF assms(1)] by (intro near_one_from_bounds) linarith+
next
  case False
  have pos: "0 < B" using near_one_bounds [OF assms(1)] by linarith
  have "B powr 1 \<le> B powr e" using assms(3) pos False by (intro powr_mono') simp_all
  moreover have "B powr 1 = B" using pos by simp
  moreover have "B powr e \<le> 1" using pos False assms(2) by (intro powr_le1) simp_all
  ultimately show ?thesis
    using near_one_bounds [OF assms(1)] by (intro near_one_from_bounds) linarith+
qed

lemma gamma_round_trip: "0 \<le> x \<Longrightarrow> (x powr kGamma) powr (1 / kGamma) = x"
  by (simp add: powr_powr kGamma_def)

lemma ToU8_grey:
  assumes "\<bar>B - 1\<bar> \<le> 1 / 10 ^ 6"
  shows "ToU8 (((128 / 255) powr kGamma * B) powr (1 / kGamma)) = 128"
proof -
  define t where "t = B powr (1 / kGamma)"
  have t: "\<bar>t - 1\<bar> \<le> 1 / 10 ^ 6"
    unfolding t_def using assms by (rule powr_near_one) (simp_all add: kGamma_def)
  have eq: "((128 / 255) powr kGamma * B) powr (1 / kGamma) = 128 / 255 * t"
    unfolding t_def by (simp add: powr_mult gamma_round_trip)
  note b = near_one_bounds [OF t]
  have lo: "\<not> 128 / 255 * t \<le> 0" using b by linarith
  have hi: "\<not> 128 / 255 * t \<ge> 1" using b by linarith
  have "\<lfloor>128 / 255 * t * 255 + 0.5\<rfloor> = 128"
  proof (rule floor_unique)
    show "of_int 128 \<le> 128 / 255 * t * 255 + 0.5" using b by simp
    show "128 / 255 * t * 255 + 0.5 < of_int 128 + 1" using b by simp
  qed
  then show ?thesis unfolding eq ToU8_def using lo hi by simp
qed

lemma px_bytes:
  "r < 256 \<Longrightarrow> uint (c0 (px r g b a)) = int r"
  "g < 256 \<Longrightarrow> uint (c1 (px r g b a)) = int g"
  "b < 256 \<Longrightarrow> uint (c2 (px r g b a)) = int b"
  by (simp_all add: px_def uint_of_nat_small)

lemma FromRGBA32_grey:
  "FromRGBA32 (px 128 128 128 255) = Some (op_scale ((128 / 255) powr kGamma) (vec3 1 1 1))"
  unfolding FromRGBA32_eq by (simp add: px_bytes flip: grey_scale)

lemma ToRGBA32_grey:
  assumes "\<bar>vx w - 1\<bar> \<le> 1 / 10 ^ 6" "\<bar>vy w - 1\<bar> \<le> 1 / 10 ^ 6" "\<bar>vz w - 1\<bar> \<le> 1 / 10 ^ 6"
  shows "ToRGBA32 (op_scale ((128 / 255) powr kGamma) w) = Some (px 128 128 128 255)"
proof -
  let ?g = "(128 / 255) powr kGamma"
  have g: "0 \<le> ?g" by simp
  have w: "0 \<le> vx w" "0 \<le> vy w" "0 \<le> vz w"
    using near_one_bounds(1) [OF assms(1)] near_one_bounds(1) [OF assms(2)]
      near_one_bounds(1) [OF assms(3)] by linarith+
  have nn: "0 \<le> vx (op_scale ?g w)" "0 \<le> vy (op_scale ?g w)" "0 \<le> vz (op_scale ?g w)"
    using g w by (simp_all add: op_scale_def)
  show ?thesis
    unfolding ToRGBA32_nonneg [OF nn]
    using ToU8_grey [OF assms(1)] ToU8_grey [OF assms(2)] ToU8_grey [OF assms(3)]
    by (simp add: op_scale_def px_def)
qed

lemma grey_preserved:
  "Transform_pixel (kSimulate_xform d 1) (px 128 128 128 255) = Some (px 128 128 128 255)"
  "Transform_pixel (kSimulate_xform d 0) (px 128 128 128 255) = Some (px 128 128 128 255)"
  unfolding Transform_pixel_def FromRGBA32_grey kSimulate_xform_def
  using Simulate_white_full [of d] Simulate_white_none [of d]
  by (simp_all add: Simulate_scale ToRGBA32_grey)

text \<open>
  Claim C8, amended. For the input pixel \<open>(128, 128, 128, 255)\<close> transformed directly
  (\<open>FromRGBA32\<close>, \<open>Simulate\<close>, \<open>ToRGBA32\<close>), every deficiency type, M-deficient
  included, gives \<open>(128, 128, 128, 255)\<close> again at strength 1, and at strength 0: the
  projections keep greys.
\<close>

theorem mid_grey_simulate:
  "Transform_pixel (kSimulate_xform d 1) (px 128 128 128 255) = Some (px 128 128 128 255) \<and>
   Transform_pixel (kSimulate_xform d 0) (px 128 128 128 255) = Some (px 128 128 128 255)"
  by (simp add: grey_preserved)

text \<open>
  Claim C8 as stated fails: for mid-grey, M-deficient, strength 1 the green channel of
  the output is 128, so it does not differ from 128 by more than 10 levels.
\<close>

theorem mid_grey_deuteranope_counterexample:
  "Transform_pixel (kSimulate_xform kM 1) (px 128 128 128 255) = Some (px 128 128 128 255) \<and>
   uint (c1 (px 128 128 128 255)) = 128 \<and>
   \<not> 10 < \<bar>uint (c1 (px 128 128 128 255)) - 128\<bar>"
  by (simp add: grey_preserved px_bytes)

section \<open>Strength zero in exact arithmetic\<close>

text \<open>
  These lemmas are statements of exact real arithmetic only. At strength 0 the affected
  channel is left as it is, so \<open>Simulate\<close> and \<open>Correct\<close> return
  \<open>kRGBFromLMS * (kLMSFromRGB * c)\<close>, and \<open>Daltonise\<close> adds a zero delta. The two
  conversion matrices are inverse to each other only to about eight decimal places
  (\<open>LMS_round_trip\<close>), so how far \<open>Simulate\<close> and \<open>Correct\<close> at strength 0 are from the
  input in the program is decided by the rounding of the \<^verbatim>\<open>float\<close> operations, which this
  theory does not model: nothing is stated here about that distance.
\<close>

lemma set_elt_same: "set_elt v d (elt v d) = v"
  by (cases d) simp_all

lemma Simulate_zero: "Simulate c d 0 = op_mul kRGBFromLMS (op_mul kLMSFromRGB c)"
  by (simp add: Simulate_def Let_def set_elt_same)

lemma op_add_zero: "op_add v (op_scale 0 w) = v"
  by (cases v) (simp add: op_add_def op_scale_def vec3_def)

lemma Correct_zero: "Correct c d 0 = op_mul kRGBFromLMS (op_mul kLMSFromRGB c)"
  by (simp add: Correct_def Let_def op_add_zero)

lemma op_mul_zero: "op_mul m (op_scale 0 w) = vec3 0 0 0"
  by (simp add: op_mul_def op_scale_def dot_def)

lemma op_add_vec0: "op_add v (vec3 0 0 0) = v"
  by (cases v) (simp add: op_add_def vec3_def)

lemma Daltonise_zero: "Daltonise c d 0 = c"
  by (cases d) (simp_all add: Let_def op_mul_zero op_add_vec0)

lemma LMS_round_trip:
  "op_mul kRGBFromLMS (op_mul kLMSFromRGB c) =
     vec3 (vx c + (43478334 * vx c + 160397076 * vy c + 161957886 * vz c) / 10 ^ 16)
          (vy c + (26860194 * vx c - 60101616 * vy c + 15876458 * vz c) / 10 ^ 16)
          (vz c + (22201608 * vx c - 71317147 * vy c - 81647333 * vz c) / 10 ^ 16)"
  by (simp add: op_mul_def dot_def vec3_def kLMSFromRGB_def kRGBFromLMS_def mat3_def
      add_divide_distrib diff_divide_distrib algebra_simps)

section \<open>Strength one; the affected channel under Daltonise\<close>

lemma project_L: "op_mul kLMSProtanope v = set_elt v kL (dot (row kLMSSimulate kL) v)"
  by (cases v) (simp add: op_mul_def dot_def vec3_def kLMSProtanope_def kLMSSimulate_def mat3_def)

lemma project_M: "op_mul kLMSDeuteranope v = set_elt v kM (dot (row kLMSSimulate kM) v)"
  by (cases v) (simp add: op_mul_def dot_def vec3_def kLMSDeuteranope_def kLMSSimulate_def mat3_def)

lemma project_S: "op_mul kLMSTritanope v = set_elt v kS (dot (row kLMSSimulate kS) v)"
  by (cases v) (simp add: op_mul_def dot_def vec3_def kLMSTritanope_def kLMSSimulate_def mat3_def)

lemma project_any:
  "op_mul (classical_projection d) v = set_elt v d (dot (row kLMSSimulate d) v)"
  by (cases d) (simp_all only: classical_projection.simps project_L project_M project_S)

lemma Simulate_one:
  "Simulate rgb d 1 =
     op_mul kRGBFromLMS (set_elt (op_mul kLMSFromRGB rgb) d
       (dot (row kLMSSimulate d) (op_mul kLMSFromRGB rgb)))"
  by (simp add: Simulate_def Let_def)

text \<open>
  Claim C6. At strength 1, \<open>Simulate\<close> is \<open>kRGBFromLMS * (M * (kLMSFromRGB * rgb))\<close> for
  \<open>M\<close> the published projection of the deficiency type (\<open>kLMSProtanope\<close>,
  \<open>kLMSDeuteranope\<close>, \<open>kLMSTritanope\<close>): the row of \<open>kLMSSimulate\<close> for the type is the
  affected row of \<open>M\<close>, and the two other rows of \<open>M\<close> are unit rows, which pass their
  channel through.
\<close>

theorem Simulate_full_strength_is_projection:
  "Simulate rgb d 1 =
     op_mul kRGBFromLMS (op_mul (classical_projection d) (op_mul kLMSFromRGB rgb)) \<and>
   row kLMSSimulate d = row (classical_projection d) d \<and>
   row kLMSProtanope kM = vec3 0 1 0 \<and> row kLMSProtanope kS = vec3 0 0 1 \<and>
   row kLMSDeuteranope kL = vec3 1 0 0 \<and> row kLMSDeuteranope kS = vec3 0 0 1 \<and>
   row kLMSTritanope kL = vec3 1 0 0 \<and> row kLMSTritanope kM = vec3 0 1 0"
proof -
  have 1: "Simulate rgb d 1 =
     op_mul kRGBFromLMS (op_mul (classical_projection d) (op_mul kLMSFromRGB rgb))"
    by (simp only: Simulate_one project_any)
  have 2: "row kLMSSimulate d = row (classical_projection d) d"
    by (cases d)
      (simp_all add: kLMSSimulate_def kLMSProtanope_def kLMSDeuteranope_def kLMSTritanope_def mat3_def)
  have 3: "row kLMSProtanope kM = vec3 0 1 0" "row kLMSProtanope kS = vec3 0 0 1"
    "row kLMSDeuteranope kL = vec3 1 0 0" "row kLMSDeuteranope kS = vec3 0 0 1"
    "row kLMSTritanope kL = vec3 1 0 0" "row kLMSTritanope kM = vec3 0 1 0"
    by (simp_all add: kLMSProtanope_def kLMSDeuteranope_def kLMSTritanope_def mat3_def)
  show ?thesis using 1 2 3 by (simp only: simp_thms)
qed

lemma delta_rows:
  "elt (op_mul kDaltonErrorToDeltaP v) kL = 0"
  "elt (op_mul kDaltonErrorToDeltaD v) kM = 0"
  "elt (op_mul kDaltonErrorToDeltaT v) kS = 0"
  by (simp_all add: op_mul_def dot_def kDaltonErrorToDeltaP_def kDaltonErrorToDeltaD_def
      kDaltonErrorToDeltaT_def mat3_def)

lemma elt_op_add: "elt (op_add a b) d = elt a d + elt b d"
  by (cases d) (simp_all add: op_add_def)

lemma Daltonise_affected: "elt (Daltonise rgb d strength) d = elt rgb d"
  by (cases d) (simp_all only: Daltonise.simps Let_def elt_op_add delta_rows add_0_right)

text \<open>
  Claim C7. For every colour, deficiency type and strength, the affected channel of
  \<open>Daltonise\<close>'s result is the affected channel of its input: the row of the
  error-to-delta matrix for the affected channel is zero (its diagonal entry with
  it), so the delta has a zero in that channel.
\<close>

theorem Daltonise_keeps_affected_channel:
  "elt (Daltonise rgb d strength) d = elt rgb d \<and>
   row kDaltonErrorToDeltaP kL = vec3 0 0 0 \<and>
   row kDaltonErrorToDeltaD kM = vec3 0 0 0 \<and>
   row kDaltonErrorToDeltaT kS = vec3 0 0 0 \<and>
   elt (op_mul kDaltonErrorToDeltaP v) kL = 0 \<and>
   elt (op_mul kDaltonErrorToDeltaD v) kM = 0 \<and>
   elt (op_mul kDaltonErrorToDeltaT v) kS = 0"
proof -
  have "row kDaltonErrorToDeltaP kL = vec3 0 0 0" "row kDaltonErrorToDeltaD kM = vec3 0 0 0"
    "row kDaltonErrorToDeltaT kS = vec3 0 0 0"
    by (simp_all add: kDaltonErrorToDeltaP_def kDaltonErrorToDeltaD_def kDaltonErrorToDeltaT_def mat3_def)
  then show ?thesis
    using Daltonise_affected [of rgb d strength] delta_rows [of v] by (simp only: simp_thms)
qed

section \<open>Packing clamps\<close>

lemma ToU8_clamps: "f \<le> 0 \<Longrightarrow> ToU8 f = 0" "1 \<le> f \<Longrightarrow> ToU8 f = 255"
  by (simp_all add: ToU8_def)

lemma ToU8u_clamps: "f \<le> 0 \<Longrightarrow> ToU8u f = 0" "1 \<le> f \<Longrightarrow> ToU8u f = 255"
  by (simp_all add: ToU8u_def)

lemma gamma_ge_one: "1 \<le> x \<Longrightarrow> 1 \<le> x powr (1 / kGamma)"
  by (rule ge_one_powr_ge_zero) (simp_all add: kGamma_def)

lemma pack_channel:
  "x = 0 \<Longrightarrow> ToU8 (x powr (1 / kGamma)) = 0 \<and> ToU8u (x powr (1 / kGamma)) = 0"
  "1 \<le> x \<Longrightarrow> ToU8 (x powr (1 / kGamma)) = 255 \<and> ToU8u (x powr (1 / kGamma)) = 255"
  by (simp_all add: ToU8_clamps ToU8u_clamps gamma_ge_one)

text \<open>
  A negative channel is not clamped: \<^verbatim>\<open>powf\<close> makes it NaN before \<open>ToU8\<close> compares
  it, and the conversion of NaN to \<^verbatim>\<open>uint8_t\<close> has no defined result.
\<close>

lemma packing_negative:
  assumes "vx c < 0 \<or> vy c < 0 \<or> vz c < 0"
  shows "ToRGBA32 c = None" "ToRGBA32u c = None"
  using pow_negative [OF assms] by (simp_all add: ToRGBA32_def ToRGBA32u_def)

lemma unpack_strict:
  "((real_of_int (uint (a :: 8 word)) / d) powr kGamma < (real_of_int (uint (b :: 8 word)) / d) powr kGamma)
     = (uint a < uint b)" if "0 < d" for d :: real
proof -
  have "((real_of_int (uint a) / d) powr kGamma < (real_of_int (uint b) / d) powr kGamma)
     = (real_of_int (uint a) / d < real_of_int (uint b) / d)"
    using that by (intro powr_less_iff) (simp_all add: byte_real_range kGamma_pos)
  also have "\<dots> = (uint a < uint b)" using that by (simp add: divide_less_cancel)
  finally show ?thesis .
qed

text \<open>
  Claim C9, amended. For a colour with no negative channel, \<open>ToRGBA32\<close> and
  \<open>ToRGBA32u\<close> both return a pixel with alpha 255; each maps a channel equal to 0 to
  the byte 0 and a channel of at least 1 to the byte 255 (so \<open>ToRGBA32u\<close> reaches 255,
  not 254). \<open>FromRGBA32\<close> and \<open>FromRGBA32u\<close> are the plain formulas
  \<open>(byte / 255) ^ kGamma\<close> and \<open>(byte / 256) ^ kGamma\<close>, strictly increasing in the byte
  over its whole range: nothing is clamped.
\<close>

theorem packing_clamps:
  assumes "0 \<le> vx c" and "0 \<le> vy c" and "0 \<le> vz c"
  shows "(\<exists>q u. ToRGBA32 c = Some q \<and> ToRGBA32u c = Some u \<and>
            (vx c = 0 \<longrightarrow> c0 q = 0 \<and> c0 u = 0) \<and> (1 \<le> vx c \<longrightarrow> c0 q = 255 \<and> c0 u = 255) \<and>
            (vy c = 0 \<longrightarrow> c1 q = 0 \<and> c1 u = 0) \<and> (1 \<le> vy c \<longrightarrow> c1 q = 255 \<and> c1 u = 255) \<and>
            (vz c = 0 \<longrightarrow> c2 q = 0 \<and> c2 u = 0) \<and> (1 \<le> vz c \<longrightarrow> c2 q = 255 \<and> c2 u = 255) \<and>
            c3 q = 255 \<and> c3 u = 255) \<and>
         FromRGBA32 rgb = Some (vec3 ((real_of_int (uint (c0 rgb)) / 255) powr kGamma)
                                     ((real_of_int (uint (c1 rgb)) / 255) powr kGamma)
                                     ((real_of_int (uint (c2 rgb)) / 255) powr kGamma)) \<and>
         FromRGBA32u rgb = Some (vec3 ((real_of_int (uint (c0 rgb)) / 256) powr kGamma)
                                      ((real_of_int (uint (c1 rgb)) / 256) powr kGamma)
                                      ((real_of_int (uint (c2 rgb)) / 256) powr kGamma)) \<and>
         ((real_of_int (uint (a :: 8 word)) / 255) powr kGamma
            < (real_of_int (uint (b :: 8 word)) / 255) powr kGamma) = (uint a < uint b) \<and>
         ((real_of_int (uint a) / 256) powr kGamma < (real_of_int (uint b) / 256) powr kGamma)
            = (uint a < uint b)"
proof -
  have "\<exists>q u. ToRGBA32 c = Some q \<and> ToRGBA32u c = Some u \<and>
            (vx c = 0 \<longrightarrow> c0 q = 0 \<and> c0 u = 0) \<and> (1 \<le> vx c \<longrightarrow> c0 q = 255 \<and> c0 u = 255) \<and>
            (vy c = 0 \<longrightarrow> c1 q = 0 \<and> c1 u = 0) \<and> (1 \<le> vy c \<longrightarrow> c1 q = 255 \<and> c1 u = 255) \<and>
            (vz c = 0 \<longrightarrow> c2 q = 0 \<and> c2 u = 0) \<and> (1 \<le> vz c \<longrightarrow> c2 q = 255 \<and> c2 u = 255) \<and>
            c3 q = 255 \<and> c3 u = 255"
    unfolding ToRGBA32_nonneg [OF assms] ToRGBA32u_nonneg [OF assms]
    using pack_channel [of "vx c"] pack_channel [of "vy c"] pack_channel [of "vz c"]
    by simp
  then show ?thesis
    using FromRGBA32_eq [of rgb] FromRGBA32u_eq [of rgb] unpack_strict [of 255 a b]
      unpack_strict [of 256 a b]
    by simp
qed

text \<open>
  Claim C9, amended, at the colour \<open>(0, 2, 0)\<close>.
\<close>

theorem packing_clamps_witness:
  "ToRGBA32 (vec3 0 2 0) = Some (px 0 255 0 255) \<and> ToRGBA32u (vec3 0 2 0) = Some (px 0 255 0 255)"
proof -
  have h: "0 \<le> vx (vec3 0 2 0)" "0 \<le> vy (vec3 0 2 0)" "0 \<le> vz (vec3 0 2 0)" by simp_all
  obtain q u where qu: "ToRGBA32 (vec3 0 2 0) = Some q" "ToRGBA32u (vec3 0 2 0) = Some u"
    "vx (vec3 0 2 0) = 0 \<longrightarrow> c0 q = 0 \<and> c0 u = 0"
    "1 \<le> vy (vec3 0 2 0) \<longrightarrow> c1 q = 255 \<and> c1 u = 255"
    "vz (vec3 0 2 0) = 0 \<longrightarrow> c2 q = 0 \<and> c2 u = 0"
    "c3 q = 255" "c3 u = 255"
    using packing_clamps [OF h] by blast
  have "q = px 0 255 0 255" "u = px 0 255 0 255"
    using qu(3-7) by (simp_all add: px_def)
  with qu(1,2) show ?thesis by simp
qed

text \<open>
  Claim C9 as stated fails: \<open>ToRGBA32u\<close> maps the out-of-range colour \<open>(2, 2, 2)\<close> to
  the bytes 255, outside \<open>[0, 254]\<close>.
\<close>

theorem packing_range_counterexample:
  "ToRGBA32u (vec3 2 2 2) = Some (px 255 255 255 255) \<and>
   \<not> uint (c0 (px 255 255 255 255)) \<le> 254"
proof -
  have "ToRGBA32u (vec3 2 2 2) = Some (px 255 255 255 255)"
    by (subst ToRGBA32u_nonneg) (simp_all add: pack_channel px_def)
  then show ?thesis by (simp add: px_bytes)
qed

end
